theory Spec2Isabelle
  imports Complex_Main
begin

section \<open>Configuration (app/config.py)\<close>

text \<open>
  The fields of \<^verbatim>\<open>Settings\<close> that the admission, queueing, worker and callback code
  reads. All of them are unconstrained Python \<^verbatim>\<open>int\<close>s, so they are \<open>int\<close> here and the
  model says what the code does for zero and negative values too.
\<close>

record settings =
  max_sync_concurrency :: int
  work_timeout_seconds :: int
  max_queue_size :: int
  callback_timeout_seconds :: int
  max_callback_retries :: int
  retry_backoff_base :: int
  rate_limit_requests :: int
  rate_limit_window_seconds :: int

definition default_settings :: settings where
  "default_settings =
     \<lparr> max_sync_concurrency = 10, work_timeout_seconds = 30, max_queue_size = 100,
       callback_timeout_seconds = 10, max_callback_retries = 3, retry_backoff_base = 2,
       rate_limit_requests = 100, rate_limit_window_seconds = 60 \<rparr>"

section \<open>Python values\<close>

text \<open>The exceptions that the modelled code raises or lets escape.\<close>

datatype py_exn =
    HTTPException int "string option"
  | ZeroDivisionError
  | UnboundLocalError
  | TypeError
  | IntegrityError

text \<open>\<^verbatim>\<open>str(n)\<close> for an integer: the decimal digits, with a leading minus sign.\<close>

definition digit_char :: "nat \<Rightarrow> char" where
  "digit_char d = ''0123456789'' ! d"

fun str_nat :: "nat \<Rightarrow> string" where
  "str_nat n = (if n < 10 then [digit_char n] else str_nat (n div 10) @ [digit_char (n mod 10)])"

declare str_nat.simps [simp del]

definition str_int :: "int \<Rightarrow> string" where
  "str_int i = (if i < 0 then CHR ''-'' # str_nat (nat (- i)) else str_nat (nat i))"

text \<open>
  \<^verbatim>\<open>int(x)\<close> for a float: truncation toward zero. Python floats are modelled as
  real numbers; rounding of the floating-point operations is not part of the model.
\<close>

definition py_int :: "real \<Rightarrow> int" where
  "py_int x = (if 0 \<le> x then \<lfloor>x\<rfloor> else \<lceil>x\<rceil>)"

section \<open>Rate limiter (app/utils/rate\_limiter.py)\<close>

text \<open>
  \<^verbatim>\<open>self.buckets\<close> maps a client to \<^verbatim>\<open>(tokens, last_update)\<close>. It is a
  \<^verbatim>\<open>defaultdict\<close>: reading the bucket of an unknown client stores
  \<^verbatim>\<open>(settings.rate_limit_requests, time.time())\<close> first. The two clock readings of a
  check are parameters: \<open>t_new\<close> is the reading taken by the default factory (used only
  when the client is unknown), \<open>now\<close> the reading taken by the check itself.

  Token counts and times are Python floats; here they are real numbers and the
  arithmetic is exact. Where a float operation rounds, the value computed here can
  differ from the float in its last place, and \<^verbatim>\<open>int\<close> of a quotient that is a whole
  number here can be one less in the code. The bounds proved below hold with rounding
  too (the cap by \<^verbatim>\<open>min\<close> is exact, and the difference of a float that is at least 1
  and 1 is not negative); the values computed below are taken at inputs where no
  operation rounds, or where the quotient is far from a whole number.
\<close>

type_synonym bucket = "real \<times> real"
type_synonym buckets = "string \<rightharpoonup> bucket"

definition refill_rate :: "settings \<Rightarrow> real" where
  "refill_rate cfg = real_of_int (rate_limit_requests cfg) / real_of_int (rate_limit_window_seconds cfg)"

definition lookup_bucket :: "settings \<Rightarrow> buckets \<Rightarrow> string \<Rightarrow> real \<Rightarrow> buckets \<times> bucket" where
  "lookup_bucket cfg bs client_ip t_new =
     (case bs client_ip of
        Some b \<Rightarrow> (bs, b)
      | None \<Rightarrow> (let b = (real_of_int (rate_limit_requests cfg), t_new)
                 in (bs(client_ip \<mapsto> b), b)))"

text \<open>The token count after the refill step (line 35 of the source).\<close>

definition refilled :: "settings \<Rightarrow> bucket \<Rightarrow> real \<Rightarrow> real" where
  "refilled cfg b now =
     min (real_of_int (rate_limit_requests cfg)) (fst b + (now - snd b) * refill_rate cfg)"

definition check_rate_limit ::
  "settings \<Rightarrow> buckets \<Rightarrow> string \<Rightarrow> real \<Rightarrow> real \<Rightarrow> (py_exn + bool \<times> int) \<times> buckets" where
  "check_rate_limit cfg bs client_ip t_new now =
     (if rate_limit_window_seconds cfg = 0 then (Inl ZeroDivisionError, bs)
      else
        let (bs1, b) = lookup_bucket cfg bs client_ip t_new;
            tokens = refilled cfg b now
        in if 1 \<le> tokens then (Inr (True, 0), bs1(client_ip \<mapsto> (tokens - 1, now)))
           else if refill_rate cfg = 0 then (Inl ZeroDivisionError, bs1)
           else (Inr (False, py_int ((1 - tokens) / refill_rate cfg)), bs1))"

text \<open>
  A sequence of checks, each with its client and its two clock readings, run from left
  to right on the bucket map; a check that raises still leaves its bucket map behind.
\<close>

fun run_checks :: "settings \<Rightarrow> buckets \<Rightarrow> (string \<times> real \<times> real) list \<Rightarrow> buckets" where
  "run_checks cfg bs [] = bs"
| "run_checks cfg bs ((client_ip, t_new, now) # cs) =
     run_checks cfg (snd (check_rate_limit cfg bs client_ip t_new now)) cs"

text \<open>The retry hint as the specification words it: a ceiling.\<close>

definition spec_retry_after :: "settings \<Rightarrow> real \<Rightarrow> int" where
  "spec_retry_after cfg tokens = \<lceil>(1 - tokens) / refill_rate cfg\<rceil>"

text \<open>A limiter of one request per two seconds, used in the examples below.\<close>

definition slow_settings :: settings where
  "slow_settings = default_settings \<lparr> rate_limit_requests := 1, rate_limit_window_seconds := 2 \<rparr>"

text \<open>The token count that a check compares with 1: the bucket it reads, refilled.\<close>

definition tokens_at_check :: "settings \<Rightarrow> buckets \<Rightarrow> string \<Rightarrow> real \<Rightarrow> real \<Rightarrow> real" where
  "tokens_at_check cfg bs client_ip t_new now =
     refilled cfg (snd (lookup_bucket cfg bs client_ip t_new)) now"

text \<open>Every stored token count lies between 0 and \<^verbatim>\<open>rate_limit_requests\<close>.\<close>

definition buckets_ok :: "settings \<Rightarrow> buckets \<Rightarrow> bool" where
  "buckets_ok cfg bs =
     (\<forall>c b. bs c = Some b \<longrightarrow> 0 \<le> fst b \<and> fst b \<le> real_of_int (rate_limit_requests cfg))"

section \<open>Callback delivery (app/worker/callback.py)\<close>

text \<open>
  What one POST to the callback target comes to: a response with its status code and
  body, or one of the three exception classes that the loop catches.
\<close>

datatype response =
    Status int string
  | TimeoutException
  | RequestError string
  | OtherException string

type_synonym py_dict = "(string \<times> string) list"

datatype status = Pending | Processing | Done | Failed

record callback_payload =
  cp_request_id :: string
  cp_status :: status
  cp_result :: "py_dict option"
  cp_error :: "string option"
  cp_execution_time_ms :: real
  cp_completed_at :: real

text \<open>
  The network is a parameter: \<open>post url payload attempt\<close> is what the target answers
  to the POST of the given attempt. What the function does besides returning is logged:
  each POST and each \<^verbatim>\<open>asyncio.sleep\<close> with its argument.
\<close>

type_synonym network = "string \<Rightarrow> callback_payload \<Rightarrow> nat \<Rightarrow> response"

datatype net_event = Post nat | Sleep int

text \<open>
  The body of one loop iteration up to the retry decision: \<open>None\<close> when the attempt
  returns success, otherwise the value assigned to \<^verbatim>\<open>error\<close>. Slices
  \<^verbatim>\<open>[:100]\<close> are \<open>take 100\<close>.
\<close>

fun attempt_error :: "settings \<Rightarrow> response \<Rightarrow> string option" where
  "attempt_error cfg (Status code body) =
     (if code < 400 then None else Some (''HTTP '' @ str_int code @ '': '' @ take 100 body))"
| "attempt_error cfg TimeoutException =
     Some (''Timeout after '' @ str_int (callback_timeout_seconds cfg) @ ''s'')"
| "attempt_error cfg (RequestError e) = Some (''Request error: '' @ take 100 e)"
| "attempt_error cfg (OtherException e) = Some (''Unexpected error: '' @ take 100 e)"

text \<open>
  The \<^verbatim>\<open>for attempt in range(max_retries)\<close> loop, entered at \<open>attempt\<close> with the
  current value of the local \<^verbatim>\<open>error\<close> (\<open>None\<close> while it is unbound). After the
  loop the return statement formats \<^verbatim>\<open>error\<close>; when no iteration ran it is unbound
  and the function raises.
\<close>

function deliver_loop ::
  "settings \<Rightarrow> (nat \<Rightarrow> response) \<Rightarrow> nat \<Rightarrow> string option \<Rightarrow> net_event list
     \<Rightarrow> (py_exn + bool \<times> string option) \<times> net_event list" where
  "deliver_loop cfg send attempt error trace =
     (if int attempt < max_callback_retries cfg then
        (case attempt_error cfg (send attempt) of
           None \<Rightarrow> (Inr (True, None), trace @ [Post attempt])
         | Some e \<Rightarrow>
             if int attempt < max_callback_retries cfg - 1
             then deliver_loop cfg send (Suc attempt) (Some e)
                    (trace @ [Post attempt, Sleep (retry_backoff_base cfg ^ attempt)])
             else deliver_loop cfg send (Suc attempt) (Some e) (trace @ [Post attempt]))
      else
        (case error of
           None \<Rightarrow> (Inl UnboundLocalError, trace)
         | Some e \<Rightarrow>
             (Inr (False, Some (''Failed after '' @ str_int (max_callback_retries cfg)
                                 @ '' attempts. Last error: '' @ e)), trace)))"
  by pat_completeness auto
termination
  by (relation "measure (\<lambda>(cfg, send, attempt, error, trace). nat (max_callback_retries cfg - int attempt))") auto

declare deliver_loop.simps [simp del]

definition deliver_callback ::
  "settings \<Rightarrow> network \<Rightarrow> string \<Rightarrow> callback_payload
     \<Rightarrow> (py_exn + bool \<times> string option) \<times> net_event list" where
  "deliver_callback cfg post callback_url payload =
     deliver_loop cfg (post callback_url payload) 0 None []"

text \<open>The log of a delivery in which every one of \<open>r\<close> attempts fails.\<close>

definition failing_log :: "settings \<Rightarrow> nat \<Rightarrow> net_event list" where
  "failing_log cfg r =
     concat (map (\<lambda>i. if Suc i < r then [Post i, Sleep (retry_backoff_base cfg ^ i)] else [Post i])
                 [0..<r])"

text \<open>The text taken from the target's answer, before the slice.\<close>

fun captured_text :: "response \<Rightarrow> string" where
  "captured_text (Status code body) = body"
| "captured_text TimeoutException = []"
| "captured_text (RequestError e) = e"
| "captured_text (OtherException e) = e"

text \<open>What the code puts in front of the captured text.\<close>

fun error_label :: "settings \<Rightarrow> response \<Rightarrow> string" where
  "error_label cfg (Status code body) = ''HTTP '' @ str_int code @ '': ''"
| "error_label cfg TimeoutException = ''Timeout after '' @ str_int (callback_timeout_seconds cfg) @ ''s''"
| "error_label cfg (RequestError e) = ''Request error: ''"
| "error_label cfg (OtherException e) = ''Unexpected error: ''"

text \<open>An attempt fails on a status of 400 or more and on every exception.\<close>

fun fails :: "response \<Rightarrow> bool" where
  "fails (Status code body) = (400 \<le> code)"
| "fails r = True"

text \<open>The attempts made and the sleeps taken, read off a log.\<close>

fun posts :: "net_event list \<Rightarrow> nat list" where
  "posts [] = []"
| "posts (Post i # evs) = i # posts evs"
| "posts (Sleep d # evs) = posts evs"

fun sleeps :: "net_event list \<Rightarrow> int list" where
  "sleeps [] = []"
| "sleeps (Post i # evs) = sleeps evs"
| "sleeps (Sleep d # evs) = d # sleeps evs"

text \<open>A callback target that answers every POST with status 500.\<close>

definition always_500 :: network where
  "always_500 url payload attempt = Status 500 ''boom''"

definition example_callback :: callback_payload where
  "example_callback =
     \<lparr> cp_request_id = ''r1'', cp_status = Done, cp_result = Some [(''operation'', ''hash'')],
       cp_error = None, cp_execution_time_ms = 12, cp_completed_at = 100 \<rparr>"

section \<open>Job queue (app/worker/queue\_manager.py)\<close>

record work_payload =
  operation :: string
  complexity :: int
  data :: py_dict

record job =
  job_request_id :: string
  job_payload :: work_payload
  job_callback_url :: string

text \<open>
  \<^verbatim>\<open>asyncio.Queue(maxsize)\<close> is a FIFO list; \<^verbatim>\<open>put_nowait\<close> raises
  \<^verbatim>\<open>QueueFull\<close> when the queue is full, and a queue whose \<^verbatim>\<open>maxsize\<close> is zero or
  negative is never full. The queue's counter of unfinished tasks is left out: the
  worker calls \<^verbatim>\<open>task_done\<close> once after each \<^verbatim>\<open>get\<close>, and nothing joins the queue.
\<close>

record queue_manager =
  queue :: "job list"
  total_enqueued :: int
  total_processed :: int

definition new_queue_manager :: queue_manager where
  "new_queue_manager = \<lparr> queue = [], total_enqueued = 0, total_processed = 0 \<rparr>"

definition full :: "settings \<Rightarrow> queue_manager \<Rightarrow> bool" where
  "full cfg q = (if max_queue_size cfg \<le> 0 then False
                 else max_queue_size cfg \<le> int (length (queue q)))"

definition enqueue :: "settings \<Rightarrow> job \<Rightarrow> queue_manager \<Rightarrow> bool \<times> queue_manager" where
  "enqueue cfg j q =
     (if full cfg q then (False, q)
      else (True, q \<lparr> queue := queue q @ [j], total_enqueued := total_enqueued q + 1 \<rparr>))"

text \<open>\<^verbatim>\<open>dequeue\<close> waits while the queue is empty: \<open>None\<close> is "still waiting".\<close>

definition dequeue :: "queue_manager \<Rightarrow> (job \<times> queue_manager) option" where
  "dequeue q = (case queue q of [] \<Rightarrow> None | j # js \<Rightarrow> Some (j, q \<lparr> queue := js \<rparr>))"

definition task_done :: "queue_manager \<Rightarrow> queue_manager" where
  "task_done q = q \<lparr> total_processed := total_processed q + 1 \<rparr>"

definition get_size :: "queue_manager \<Rightarrow> int" where
  "get_size q = int (length (queue q))"

record queue_metrics =
  current_size :: int
  max_size :: int
  m_total_enqueued :: int
  m_total_processed :: int

definition get_metrics :: "settings \<Rightarrow> queue_manager \<Rightarrow> queue_metrics" where
  "get_metrics cfg q =
     \<lparr> current_size = get_size q, max_size = max_queue_size cfg,
       m_total_enqueued = total_enqueued q, m_total_processed = total_processed q \<rparr>"

section \<open>Durable store (app/db/repository.py)\<close>

text \<open>
  The table \<^verbatim>\<open>requests\<close> as a map from the identifier to the row. The status column
  takes the four literals that the code writes.

  \<open>rr_history\<close> is not a column. It lists every value written to the status column of
  the row, oldest first, so that the path a record takes can be stated; no modelled code
  reads it.
\<close>

datatype mode = Sync | Async

record request_record =
  rr_mode :: mode
  rr_payload :: work_payload
  rr_status :: status
  rr_callback_url :: "string option"
  rr_created_at :: real
  rr_client_ip :: string
  rr_started_at :: "real option"
  rr_completed_at :: "real option"
  rr_result :: "py_dict option"
  rr_last_error :: "string option"
  rr_attempts :: int
  rr_history :: "status list"

type_synonym store = "string \<rightharpoonup> request_record"

text \<open>
  Modelled from the spec: \<^verbatim>\<open>schema.sql\<close>, which declares the table, is not among the
  sources. The store is "a key-value record store keyed by request identifier", so the
  identifier is a unique key and an \<^verbatim>\<open>INSERT\<close> of an identifier that is present
  raises; the columns that the \<^verbatim>\<open>INSERT\<close> does not name start as \<^verbatim>\<open>NULL\<close>, and the
  attempt counter, which the code increments and reads as an integer, as 0.
\<close>

definition create_request ::
  "store \<Rightarrow> string \<Rightarrow> mode \<Rightarrow> work_payload \<Rightarrow> string option \<Rightarrow> string \<Rightarrow> real \<Rightarrow> py_exn + store" where
  "create_request conn request_id md payload callback_url client_ip now =
     (case conn request_id of
        Some r \<Rightarrow> Inl IntegrityError
      | None \<Rightarrow>
          Inr (conn(request_id \<mapsto>
            \<lparr> rr_mode = md, rr_payload = payload, rr_status = Pending,
              rr_callback_url = callback_url, rr_created_at = now, rr_client_ip = client_ip,
              rr_started_at = None, rr_completed_at = None, rr_result = None,
              rr_last_error = None, rr_attempts = 0, rr_history = [Pending] \<rparr>)))"

definition get_request :: "store \<Rightarrow> string \<Rightarrow> request_record option" where
  "get_request conn request_id = conn request_id"

text \<open>An \<^verbatim>\<open>UPDATE ... WHERE id = ?\<close> changes nothing when no row has the identifier.\<close>

definition update_request_status ::
  "store \<Rightarrow> string \<Rightarrow> status \<Rightarrow> real option \<Rightarrow> real option \<Rightarrow> store" where
  "update_request_status conn request_id st started_at completed_at =
     (case conn request_id of
        None \<Rightarrow> conn
      | Some r \<Rightarrow>
          conn(request_id \<mapsto>
            r \<lparr> rr_status := st,
                rr_started_at := (case started_at of None \<Rightarrow> rr_started_at r | Some t \<Rightarrow> Some t),
                rr_completed_at := (case completed_at of None \<Rightarrow> rr_completed_at r | Some t \<Rightarrow> Some t),
                rr_history := rr_history r @ [st] \<rparr>))"

text \<open>\<^verbatim>\<open>json.dumps(result) if result else None\<close>: an empty dictionary is stored as \<^verbatim>\<open>NULL\<close>.\<close>

definition update_request_result ::
  "store \<Rightarrow> string \<Rightarrow> py_dict option \<Rightarrow> string option \<Rightarrow> store" where
  "update_request_result conn request_id result error =
     (case conn request_id of
        None \<Rightarrow> conn
      | Some r \<Rightarrow>
          conn(request_id \<mapsto>
            r \<lparr> rr_result := (case result of None \<Rightarrow> None | Some d \<Rightarrow> if d = [] then None else Some d),
                rr_last_error := error \<rparr>))"

definition increment_callback_attempts :: "store \<Rightarrow> string \<Rightarrow> string option \<Rightarrow> store" where
  "increment_callback_attempts conn request_id error =
     (case conn request_id of
        None \<Rightarrow> conn
      | Some r \<Rightarrow>
          conn(request_id \<mapsto> r \<lparr> rr_attempts := rr_attempts r + 1, rr_last_error := error \<rparr>))"

section \<open>Process state\<close>

text \<open>
  The module-level objects: the store, the queue manager and the value of
  \<^verbatim>\<open>sync_semaphore\<close>. \<open>work_log\<close> lists the payloads that \<^verbatim>\<open>do_work\<close> has been called
  with; it records the calls and nothing reads it.
\<close>

record sys_state =
  db :: store
  qm :: queue_manager
  sem_value :: int
  work_log :: "work_payload list"

definition initial_state :: "settings \<Rightarrow> sys_state" where
  "initial_state cfg =
     \<lparr> db = Map.empty, qm = new_queue_manager, sem_value = max_sync_concurrency cfg, work_log = [] \<rparr>"

text \<open>The permits in use: the ceiling less the semaphore's value.\<close>

definition held_permits :: "settings \<Rightarrow> sys_state \<Rightarrow> int" where
  "held_permits cfg s = max_sync_concurrency cfg - sem_value s"

text \<open>
  The Work Engine is a collaborator: what \<^verbatim>\<open>asyncio.wait_for(do_work(payload), timeout)\<close>
  comes to is a parameter. \<open>WorkError\<close> carries \<^verbatim>\<open>str(e)\<close> of the exception raised.
\<close>

datatype work_outcome = WorkOk py_dict | WorkTimeout | WorkError string

definition timeout_message :: "settings \<Rightarrow> string" where
  "timeout_message cfg = ''Work execution timeout after '' @ str_int (work_timeout_seconds cfg) @ ''s''"

definition error_message :: "string \<Rightarrow> string" where
  "error_message e = ''Work execution error: '' @ e"

section \<open>Synchronous endpoint (app/api/sync\_endpoint.py)\<close>

text \<open>
  The identifier drawn by \<^verbatim>\<open>uuid.uuid4()\<close>, the clock and the outcome of the work are
  parameters. \<open>se_time n\<close> is the reading of the \<^verbatim>\<open>time.time()\<close> call on line \<open>n\<close> of the
  source file; the reading inside \<^verbatim>\<open>create_request\<close> is \<open>se_time 0\<close>.
\<close>

record sync_env =
  se_time :: "nat \<Rightarrow> real"
  se_work :: work_outcome

record sync_response =
  sr_request_id :: string
  sr_status :: status
  sr_result :: "py_dict option"
  sr_error :: "string option"
  sr_execution_time_ms :: real

text \<open>
  Lines 32 to 36. \<^verbatim>\<open>locked()\<close> holds whenever the value is 0, so the test is
  that the value is 0.
\<close>

definition at_capacity :: "sys_state \<Rightarrow> bool" where
  "at_capacity s = (sem_value s = 0)"

definition acquire :: "sys_state \<Rightarrow> sys_state" where
  "acquire s = s \<lparr> sem_value := sem_value s - 1 \<rparr>"

definition release :: "sys_state \<Rightarrow> sys_state" where
  "release s = s \<lparr> sem_value := sem_value s + 1 \<rparr>"

text \<open>Lines 39 to 130: the body of \<^verbatim>\<open>async with sync_semaphore\<close>.\<close>

definition sync_body ::
  "settings \<Rightarrow> sync_env \<Rightarrow> string \<Rightarrow> work_payload \<Rightarrow> string \<Rightarrow> sys_state
     \<Rightarrow> (py_exn + sync_response) \<times> sys_state" where
  "sync_body cfg env request_id payload client_ip s =
     (case create_request (db s) request_id Sync payload None client_ip (se_time env 0) of
        Inl e \<Rightarrow> (Inl e, s)
      | Inr conn0 \<Rightarrow>
          let start_time = se_time env 54;
              conn1 = update_request_status conn0 request_id Processing (Some start_time) None;
              s1 = s \<lparr> db := conn1, work_log := work_log s @ [payload] \<rparr>
          in (case se_work env of
                WorkOk result \<Rightarrow>
                  let execution_time_ms = (se_time env 70 - start_time) * 1000;
                      conn2 = update_request_result conn1 request_id (Some result) None;
                      conn3 = update_request_status conn2 request_id Done None (Some (se_time env 79))
                  in (Inr \<lparr> sr_request_id = request_id, sr_status = Done, sr_result = Some result,
                            sr_error = None, sr_execution_time_ms = execution_time_ms \<rparr>,
                      s1 \<lparr> db := conn3 \<rparr>)
              | WorkTimeout \<Rightarrow>
                  let error_msg = timeout_message cfg;
                      execution_time_ms = real_of_int (work_timeout_seconds cfg * 1000);
                      conn2 = update_request_result conn1 request_id None (Some error_msg);
                      conn3 = update_request_status conn2 request_id Failed None (Some (se_time env 100))
                  in (Inr \<lparr> sr_request_id = request_id, sr_status = Failed, sr_result = None,
                            sr_error = Some error_msg, sr_execution_time_ms = execution_time_ms \<rparr>,
                      s1 \<lparr> db := conn3 \<rparr>)
              | WorkError e \<Rightarrow>
                  let error_msg = error_message e;
                      execution_time_ms = (se_time env 113 - start_time) * 1000;
                      conn2 = update_request_result conn1 request_id None (Some error_msg);
                      conn3 = update_request_status conn2 request_id Failed None (Some (se_time env 121))
                  in (Inr \<lparr> sr_request_id = request_id, sr_status = Failed, sr_result = None,
                            sr_error = Some error_msg, sr_execution_time_ms = execution_time_ms \<rparr>,
                      s1 \<lparr> db := conn3 \<rparr>)))"

definition sync_endpoint ::
  "settings \<Rightarrow> sync_env \<Rightarrow> string \<Rightarrow> work_payload \<Rightarrow> string \<Rightarrow> sys_state
     \<Rightarrow> (py_exn + sync_response) \<times> sys_state" where
  "sync_endpoint cfg env request_id payload client_ip s =
     (if at_capacity s
      then (Inl (HTTPException 503 (Some ''Server is at maximum capacity. Please try again later.'')), s)
      else let (res, s') = sync_body cfg env request_id payload client_ip (acquire s)
           in (res, release s'))"

section \<open>Asynchronous endpoint (app/api/async\_endpoint.py)\<close>

text \<open>
  The result \<open>(is_valid, error)\<close> of \<^verbatim>\<open>validate_callback_url\<close>, the identifier and the
  clock reading inside \<^verbatim>\<open>create_request\<close> are parameters.
\<close>

record async_response =
  ar_request_id :: string
  ar_status :: status
  ar_message :: string

definition async_endpoint ::
  "settings \<Rightarrow> bool \<times> string option \<Rightarrow> real \<Rightarrow> string \<Rightarrow> work_payload \<Rightarrow> string \<Rightarrow> string
     \<Rightarrow> sys_state \<Rightarrow> (py_exn + async_response) \<times> sys_state" where
  "async_endpoint cfg validation now request_id payload callback_url client_ip s =
     (if \<not> fst validation then (Inl (HTTPException 400 (snd validation)), s)
      else
        (case create_request (db s) request_id Async payload (Some callback_url) client_ip now of
           Inl e \<Rightarrow> (Inl e, s)
         | Inr conn1 \<Rightarrow>
             let j = \<lparr> job_request_id = request_id, job_payload = payload,
                       job_callback_url = callback_url \<rparr>;
                 (enqueued, q) = enqueue cfg j (qm s);
                 s1 = s \<lparr> db := conn1, qm := q \<rparr>
             in if \<not> enqueued
                then (Inl (HTTPException 429 (Some ''Queue is full. Please try again later.'')), s1)
                else (Inr \<lparr> ar_request_id = request_id, ar_status = Pending,
                           ar_message = ''Request accepted and queued for processing'' \<rparr>, s1)))"

section \<open>Worker (app/worker/processor.py)\<close>

text \<open>
  One pass of the \<^verbatim>\<open>while True\<close> body. Its parameters: \<open>we_time n\<close>, the reading of
  the \<^verbatim>\<open>time.time()\<close> call on line \<open>n\<close>; the outcome of the work; the network; and
  \<open>we_str e\<close>, the text \<^verbatim>\<open>str(e)\<close> of an exception raised by the interpreter.
\<close>

record worker_env =
  we_time :: "nat \<Rightarrow> real"
  we_work :: work_outcome
  we_post :: network
  we_str :: "py_exn \<Rightarrow> string"

text \<open>
  Lines 56 to 94, after \<^verbatim>\<open>do_work\<close> has returned \<open>result\<close>. The first component is
  the exception that leaves the \<^verbatim>\<open>try\<close> body, if any: subscripting \<^verbatim>\<open>None\<close> when the
  row is missing, subtracting \<^verbatim>\<open>None\<close> when it has no start time, or what
  \<^verbatim>\<open>deliver_callback\<close> raises.
\<close>

definition on_success ::
  "settings \<Rightarrow> worker_env \<Rightarrow> job \<Rightarrow> py_dict \<Rightarrow> store \<Rightarrow> py_exn option \<times> store" where
  "on_success cfg env j result conn =
     (let request_id = job_request_id j in
      case get_request conn request_id of
        None \<Rightarrow> (Some TypeError, conn)
      | Some req \<Rightarrow>
          (case rr_started_at req of
             None \<Rightarrow> (Some TypeError, conn)
           | Some started_at \<Rightarrow>
               let execution_time_ms = (we_time env 59 - started_at) * 1000;
                   conn1 = update_request_result conn request_id (Some result) None;
                   conn2 = update_request_status conn1 request_id Done None (Some (we_time env 68));
                   callback_payload =
                     \<lparr> cp_request_id = request_id, cp_status = Done, cp_result = Some result,
                       cp_error = None, cp_execution_time_ms = execution_time_ms,
                       cp_completed_at = we_time env 78 \<rparr>
               in (case fst (deliver_callback cfg (we_post env) (job_callback_url j) callback_payload) of
                     Inl e \<Rightarrow> (Some e, conn2)
                   | Inr (success, error) \<Rightarrow>
                       if \<not> success
                       then (None, increment_callback_attempts conn2 request_id error)
                       else (None, conn2))))"

text \<open>
  Lines 96 to 118, the handler of \<^verbatim>\<open>asyncio.TimeoutError\<close>. The pair returned by
  \<^verbatim>\<open>deliver_callback\<close> is dropped; an exception it raises leaves the handler.
\<close>

definition on_timeout ::
  "settings \<Rightarrow> worker_env \<Rightarrow> job \<Rightarrow> store \<Rightarrow> py_exn option \<times> store" where
  "on_timeout cfg env j conn =
     (let request_id = job_request_id j;
          error_msg = timeout_message cfg;
          conn1 = update_request_result conn request_id None (Some error_msg);
          conn2 = update_request_status conn1 request_id Failed None (Some (we_time env 105));
          callback_payload =
            \<lparr> cp_request_id = request_id, cp_status = Failed, cp_result = None,
              cp_error = Some error_msg,
              cp_execution_time_ms = real_of_int (work_timeout_seconds cfg * 1000),
              cp_completed_at = we_time env 115 \<rparr>
      in (case fst (deliver_callback cfg (we_post env) (job_callback_url j) callback_payload) of
            Inl e \<Rightarrow> (Some e, conn2)
          | Inr r \<Rightarrow> (None, conn2)))"

text \<open>Lines 120 to 142, the handler of \<^verbatim>\<open>Exception\<close>, with \<open>e\<close> the text \<^verbatim>\<open>str(e)\<close>.\<close>

definition on_exception ::
  "settings \<Rightarrow> worker_env \<Rightarrow> job \<Rightarrow> string \<Rightarrow> store \<Rightarrow> py_exn option \<times> store" where
  "on_exception cfg env j e conn =
     (let request_id = job_request_id j;
          error_msg = error_message e;
          conn1 = update_request_result conn request_id None (Some error_msg);
          conn2 = update_request_status conn1 request_id Failed None (Some (we_time env 129));
          callback_payload =
            \<lparr> cp_request_id = request_id, cp_status = Failed, cp_result = None,
              cp_error = Some error_msg, cp_execution_time_ms = 0,
              cp_completed_at = we_time env 139 \<rparr>
      in (case fst (deliver_callback cfg (we_post env) (job_callback_url j) callback_payload) of
            Inl e' \<Rightarrow> (Some e', conn2)
          | Inr r \<Rightarrow> (None, conn2)))"

text \<open>
  Lines 31 to 145 for a job that has been dequeued. The first component is the
  exception that reaches the outer handler (which prints it and sleeps a second), if any.
  The \<^verbatim>\<open>finally\<close> clause runs on every path.
\<close>

definition process_job ::
  "settings \<Rightarrow> worker_env \<Rightarrow> job \<Rightarrow> sys_state \<Rightarrow> py_exn option \<times> sys_state" where
  "process_job cfg env j s =
     (let request_id = job_request_id j;
          conn1 = update_request_status (db s) request_id Processing (Some (we_time env 43)) None;
          (fault, conn') =
            (case we_work env of
               WorkOk result \<Rightarrow>
                 (case on_success cfg env j result conn1 of
                    (Some e, conn2) \<Rightarrow> on_exception cfg env j (we_str env e) conn2
                  | (None, conn2) \<Rightarrow> (None, conn2))
             | WorkTimeout \<Rightarrow> on_timeout cfg env j conn1
             | WorkError e \<Rightarrow> on_exception cfg env j e conn1)
      in (fault, s \<lparr> db := conn', qm := task_done (qm s),
                      work_log := work_log s @ [job_payload j] \<rparr>))"

text \<open>A pass waits in \<^verbatim>\<open>dequeue\<close> while the queue is empty: \<open>None\<close>.\<close>

definition worker_iteration ::
  "settings \<Rightarrow> worker_env \<Rightarrow> sys_state \<Rightarrow> (py_exn option \<times> sys_state) option" where
  "worker_iteration cfg env s =
     (case dequeue (qm s) of
        None \<Rightarrow> None
      | Some (j, q) \<Rightarrow> Some (process_job cfg env j (s \<lparr> qm := q \<rparr>)))"

section \<open>Example data\<close>

definition example_payload :: work_payload where
  "example_payload = \<lparr> operation = ''hash'', complexity = 1, data = [] \<rparr>"

definition example_job :: job where
  "example_job =
     \<lparr> job_request_id = ''r1'', job_payload = example_payload, job_callback_url = ''http://cb'' \<rparr>"

text \<open>A clock that reads the line number of the call as the time.\<close>

definition example_sync_env :: sync_env where
  "example_sync_env = \<lparr> se_time = real, se_work = WorkTimeout \<rparr>"

section \<open>Runs of the process\<close>

text \<open>
  The things that happen to the process state: a synchronous submission, an
  asynchronous submission, and a pass of some worker. Each carries the parameters of
  its handler. A handler runs here from start to end without another one in between;
  the handlers of one record are never two at a time, since the record belongs to the
  submitting call or to the one worker that dequeued its job.
\<close>

datatype event =
    SyncSubmit sync_env string work_payload string
  | AsyncSubmit "bool \<times> string option" real string work_payload string string
  | WorkerPass worker_env

fun exec_event :: "settings \<Rightarrow> sys_state \<Rightarrow> event \<Rightarrow> sys_state" where
  "exec_event cfg s (SyncSubmit env request_id payload client_ip) =
     snd (sync_endpoint cfg env request_id payload client_ip s)"
| "exec_event cfg s (AsyncSubmit validation now request_id payload callback_url client_ip) =
     snd (async_endpoint cfg validation now request_id payload callback_url client_ip s)"
| "exec_event cfg s (WorkerPass env) =
     (case worker_iteration cfg env s of None \<Rightarrow> s | Some (fault, s') \<Rightarrow> s')"

definition run_events :: "settings \<Rightarrow> sys_state \<Rightarrow> event list \<Rightarrow> sys_state" where
  "run_events cfg s evs = foldl (exec_event cfg) s evs"

section \<open>Request lifecycle\<close>

text \<open>The edges of the state machine.\<close>

fun forward :: "status \<Rightarrow> status \<Rightarrow> bool" where
  "forward Pending Processing = True"
| "forward Processing Done = True"
| "forward Processing Failed = True"
| "forward a b = False"

fun chain :: "status list \<Rightarrow> bool" where
  "chain (a # b # xs) = (forward a b \<and> chain (b # xs))"
| "chain xs = True"

text \<open>
  A status history is a lifecycle when it starts at \<open>Pending\<close> and every write follows
  an edge of the state machine.
\<close>

definition lifecycle :: "status list \<Rightarrow> bool" where
  "lifecycle h = (h \<noteq> [] \<and> hd h = Pending \<and> chain h)"

section \<open>Invariants of a run\<close>

text \<open>The identifiers of the queued jobs, head first.\<close>

definition queue_ids :: "sys_state \<Rightarrow> string list" where
  "queue_ids s = map job_request_id (queue (qm s))"

text \<open>
  No identifier is queued twice, and every queued job has a record that has been
  written once, at its creation.
\<close>

definition queue_inv :: "sys_state \<Rightarrow> bool" where
  "queue_inv s =
     (distinct (queue_ids s)
      \<and> (\<forall>rid \<in> set (queue_ids s). \<exists>r. db s rid = Some r \<and> rr_history r = [Pending]))"

text \<open>A record is in order when its history is a lifecycle that ends at its status.\<close>

definition record_ok :: "request_record \<Rightarrow> bool" where
  "record_ok r = (lifecycle (rr_history r) \<and> rr_status r = last (rr_history r))"

definition store_inv :: "sys_state \<Rightarrow> bool" where
  "store_inv s = (\<forall>rid r. db s rid = Some r \<longrightarrow> record_ok r)"

section \<open>Example runs\<close>

text \<open>A worker pass whose work times out and whose callback target always answers 500.\<close>

definition example_worker_env :: worker_env where
  "example_worker_env =
     \<lparr> we_time = real, we_work = WorkTimeout, we_post = always_500, we_str = (\<lambda>e. ''exception'') \<rparr>"

text \<open>An asynchronous submission of the example payload with a valid callback address.\<close>

definition example_submit :: "string \<Rightarrow> event" where
  "example_submit request_id =
     AsyncSubmit (True, None) 1 request_id example_payload ''http://cb'' ''10.0.0.1''"

text \<open>The process after one such submission, under the default settings.\<close>

definition queued_state :: sys_state where
  "queued_state = run_events default_settings (initial_state default_settings) [example_submit ''r1'']"

text \<open>Settings with no retry budget, and a worker pass whose work succeeds.\<close>

definition no_retry_settings :: settings where
  "no_retry_settings = default_settings \<lparr> max_callback_retries := 0 \<rparr>"

definition example_ok_env :: worker_env where
  "example_ok_env = example_worker_env \<lparr> we_work := WorkOk [(''operation'', ''hash'')] \<rparr>"

text \<open>Settings with a queue of capacity 1.\<close>

definition tiny_queue :: settings where
  "tiny_queue = default_settings \<lparr> max_queue_size := 1 \<rparr>"


section \<open>Properties of the rate limiter\<close>

lemma refilled_le_max: "refilled cfg b now \<le> real_of_int (rate_limit_requests cfg)"
  by (simp add: refilled_def)

lemma lookup_bucket_ok:
  assumes "0 \<le> rate_limit_requests cfg" "buckets_ok cfg bs"
  shows "buckets_ok cfg (fst (lookup_bucket cfg bs c t_new))"
  using assms by (auto simp: lookup_bucket_def buckets_ok_def Let_def split: option.splits)

lemma check_rate_limit_ok:
  assumes "0 \<le> rate_limit_requests cfg" "buckets_ok cfg bs"
  shows "buckets_ok cfg (snd (check_rate_limit cfg bs c t_new now))"
proof -
  obtain bs1 b where lb: "lookup_bucket cfg bs c t_new = (bs1, b)" by (cases "lookup_bucket cfg bs c t_new")
  have ok1: "buckets_ok cfg bs1" using lookup_bucket_ok[OF assms, of c t_new] lb by simp
  have "buckets_ok cfg (bs1(c \<mapsto> (refilled cfg b now - 1, now)))" if "1 \<le> refilled cfg b now"
    using ok1 that refilled_le_max[of cfg b now] by (auto simp: buckets_ok_def)
  then show ?thesis
    using ok1 assms(2) by (simp add: check_rate_limit_def lb Let_def)
qed

lemma run_checks_ok:
  "0 \<le> rate_limit_requests cfg \<Longrightarrow> buckets_ok cfg bs \<Longrightarrow> buckets_ok cfg (run_checks cfg bs cs)"
proof (induction cs arbitrary: bs)
  case Nil then show ?case by simp
next
  case (Cons x cs)
  obtain c t n where x: "x = (c, t, n)" by (cases x)
  show ?case unfolding x using Cons by (simp add: check_rate_limit_ok)
qed

text \<open>
  Claim C8. Whatever the clients, the clock readings (also when the clock steps back)
  and the number of checks, every token count stored in the bucket map lies in
  \<open>[0, rate_limit_requests]\<close>, provided the configured maximum is not negative; and the
  refill of a stored bucket never exceeds the maximum.
\<close>

theorem bucket_tokens_in_range:
  assumes "0 \<le> rate_limit_requests cfg"
    and "run_checks cfg Map.empty cs client_ip = Some (tokens, last_update)"
  shows "0 \<le> tokens \<and> tokens \<le> real_of_int (rate_limit_requests cfg)
         \<and> refilled cfg (tokens, last_update) now \<le> real_of_int (rate_limit_requests cfg)"
proof -
  have "buckets_ok cfg (run_checks cfg Map.empty cs)"
    using assms(1) by (intro run_checks_ok) (simp_all add: buckets_ok_def)
  with assms(2) show ?thesis by (auto simp: buckets_ok_def refilled_le_max)
qed

text \<open>The definitions that evaluate a check on concrete settings.\<close>

lemmas rl_eval = check_rate_limit_def slow_settings_def default_settings_def lookup_bucket_def
  refilled_def refill_rate_def py_int_def Let_def

text \<open>Three checks of one client under \<open>slow_settings\<close>: allowed, denied, allowed.\<close>

theorem bucket_tokens_in_range_witness:
  "0 \<le> rate_limit_requests slow_settings
   \<and> run_checks slow_settings Map.empty [(''c'', 0, 0), (''c'', 0, 1/2), (''c'', 0, 3)] ''c'' = Some (0, 3)
   \<and> (0::real) \<le> 0 \<and> (0::real) \<le> real_of_int (rate_limit_requests slow_settings)
   \<and> refilled slow_settings (0, 3) 4 \<le> real_of_int (rate_limit_requests slow_settings)"
proof -
  have h1: "0 \<le> rate_limit_requests slow_settings" by (simp add: slow_settings_def default_settings_def)
  have c1: "check_rate_limit slow_settings Map.empty ''c'' 0 0 = (Inr (True, 0), [''c'' \<mapsto> (0, 0)])"
    by (simp add: rl_eval)
  have c2: "check_rate_limit slow_settings [''c'' \<mapsto> (0, 0)] ''c'' 0 (1/2) = (Inr (False, 1), [''c'' \<mapsto> (0, 0)])"
    by (simp add: rl_eval)
  have c3: "check_rate_limit slow_settings [''c'' \<mapsto> (0, 0)] ''c'' 0 3 = (Inr (True, 0), [''c'' \<mapsto> (0, 3)])"
    by (simp add: rl_eval)
  have h2: "run_checks slow_settings Map.empty [(''c'', 0, 0), (''c'', 0, 1/2), (''c'', 0, 3)] ''c'' = Some (0, 3)"
    by (simp add: c1 c2 c3)
  show ?thesis using h1 h2 bucket_tokens_in_range[OF h1 h2, of 4] by simp
qed

text \<open>A client that spends its tokens at one reading of the clock empties its bucket.\<close>

lemma drain_default:
  "n \<le> 100 \<Longrightarrow>
     run_checks default_settings (bs(c \<mapsto> (real n, 0))) (replicate n (c, 0, 0)) = bs(c \<mapsto> (0, 0))"
proof (induction n arbitrary: bs)
  case 0
  then show ?case by simp
next
  case (Suc n)
  have step: "check_rate_limit default_settings (bs(c \<mapsto> (real (Suc n), 0))) c 0 0
          = (Inr (True, 0), bs(c \<mapsto> (real n, 0)))"
    using Suc.prems by (simp add: rl_eval)
  have "run_checks default_settings (bs(c \<mapsto> (real (Suc n), 0))) (replicate (Suc n) (c, 0, 0))
          = run_checks default_settings (bs(c \<mapsto> (real n, 0))) (replicate n (c, 0, 0))"
    by (simp only: replicate_Suc run_checks.simps step snd_conv)
  also have "\<dots> = bs(c \<mapsto> (0, 0))"
    by (rule Suc.IH) (use Suc.prems in simp)
  finally show ?case .
qed

text \<open>One hundred checks at time 0 under the default settings leave no token.\<close>

lemma hundred_checks:
  "run_checks default_settings Map.empty ((''c'', 0, 0) # replicate 99 (''c'', 0, 0)) = [''c'' \<mapsto> (0, 0)]"
proof -
  have "check_rate_limit default_settings Map.empty ''c'' 0 0 = (Inr (True, 0), [''c'' \<mapsto> (real 99, 0)])"
    by (simp add: rl_eval)
  then have "run_checks default_settings Map.empty ((''c'', 0, 0) # replicate 99 (''c'', 0, 0))
               = run_checks default_settings [''c'' \<mapsto> (real 99, 0)] (replicate 99 (''c'', 0, 0))"
    by (simp only: run_checks.simps snd_conv)
  also have "\<dots> = [''c'' \<mapsto> (0, 0)]"
    using drain_default[of 99 Map.empty "''c''"] by simp
  finally show ?thesis .
qed

text \<open>
  Claim C2 fails on the code. With one token per two seconds, a client checked at time
  0 and again half a second later is denied with a quarter of a token: the code
  reports 1 second, while the ceiling of \<open>(1 - 1/4) / (1/2) = 3/2\<close> is 2. Under the
  default settings the check that follows one hundred checks at the same time is denied
  with no token: the code reports 0 seconds, while the ceiling of \<open>1 / (100/60)\<close> is 1.
  In the first case every float operation is exact; in the second the quotient is 3/5,
  far from a whole number.
\<close>

theorem retry_after_rounds_down:
  "check_rate_limit slow_settings (run_checks slow_settings Map.empty [(''c'', 0, 0)]) ''c'' 0 (1/2)
     = (Inr (False, 1), [''c'' \<mapsto> (0, 0)])
   \<and> tokens_at_check slow_settings (run_checks slow_settings Map.empty [(''c'', 0, 0)]) ''c'' 0 (1/2) = 1/4
   \<and> spec_retry_after slow_settings (1/4) = 2
   \<and> check_rate_limit default_settings
         (run_checks default_settings Map.empty ((''c'', 0, 0) # replicate 99 (''c'', 0, 0))) ''c'' 0 0
     = (Inr (False, 0), [''c'' \<mapsto> (0, 0)])
   \<and> tokens_at_check default_settings
         (run_checks default_settings Map.empty ((''c'', 0, 0) # replicate 99 (''c'', 0, 0))) ''c'' 0 0 = 0
   \<and> spec_retry_after default_settings 0 = 1"
proof -
  have a: "check_rate_limit slow_settings (run_checks slow_settings Map.empty [(''c'', 0, 0)]) ''c'' 0 (1/2)
     = (Inr (False, 1), [''c'' \<mapsto> (0, 0)])
   \<and> tokens_at_check slow_settings (run_checks slow_settings Map.empty [(''c'', 0, 0)]) ''c'' 0 (1/2) = 1/4
   \<and> spec_retry_after slow_settings (1/4) = 2"
    by (simp add: rl_eval tokens_at_check_def spec_retry_after_def)
  have b: "check_rate_limit default_settings [''c'' \<mapsto> (0, 0)] ''c'' 0 0 = (Inr (False, 0), [''c'' \<mapsto> (0, 0)])"
    by (simp add: rl_eval)
  have c: "tokens_at_check default_settings [''c'' \<mapsto> (0, 0)] ''c'' 0 0 = 0"
    by (simp add: rl_eval tokens_at_check_def)
  have d: "spec_retry_after default_settings 0 = 1"
    by (simp add: spec_retry_after_def refill_rate_def default_settings_def)
  show ?thesis using a b c d by (simp only: hundred_checks)
qed

text \<open>
  Claim C9 as stated fails. The denied check at time 1/2 of a bucket \<open>(0, 0)\<close> leaves
  \<open>(0, 0)\<close> stored: neither the refilled count 1/4 nor the time 1/2 is written.
\<close>

theorem denied_check_keeps_bucket_counterexample:
  "fst (check_rate_limit slow_settings [''c'' \<mapsto> (0, 0)] ''c'' 0 (1/2)) = Inr (False, 1)
   \<and> snd (check_rate_limit slow_settings [''c'' \<mapsto> (0, 0)] ''c'' 0 (1/2)) ''c'' = Some (0, 0)
   \<and> snd (check_rate_limit slow_settings [''c'' \<mapsto> (0, 0)] ''c'' 0 (1/2)) ''c'' \<noteq> Some (1/4, 1/2)"
  by (simp add: rl_eval)

text \<open>
  Claim C9, amended. A check touches the bucket of its client only. An allowed check
  stores the refilled count less one, with the time of the check. A check that is not
  allowed leaves the client's bucket as it was, or, for an unknown client, leaves the
  full bucket that the lookup created. The first check of an unknown client, under a
  positive limit and window and a clock that has not stepped back, is allowed and
  leaves the maximum less one.
\<close>

theorem check_updates_bucket_when_allowed:
  assumes "rate_limit_window_seconds cfg \<noteq> 0"
    and "check_rate_limit cfg bs client_ip t_new now = (res, bs')"
  shows "(\<forall>c. c \<noteq> client_ip \<longrightarrow> bs' c = bs c)
     \<and> (res = Inr (True, 0) \<longrightarrow> bs' client_ip = Some (tokens_at_check cfg bs client_ip t_new now - 1, now))
     \<and> (res \<noteq> Inr (True, 0) \<longrightarrow>
          bs' client_ip = Some (case bs client_ip of
                                  None \<Rightarrow> (real_of_int (rate_limit_requests cfg), t_new)
                                | Some b \<Rightarrow> b))
     \<and> (bs client_ip = None \<and> t_new \<le> now \<and> 0 < rate_limit_requests cfg
          \<and> 0 < rate_limit_window_seconds cfg \<longrightarrow>
          res = Inr (True, 0) \<and> bs' client_ip = Some (real_of_int (rate_limit_requests cfg) - 1, now))"
proof -
  obtain bs1 b where lb: "lookup_bucket cfg bs client_ip t_new = (bs1, b)"
    by (cases "lookup_bucket cfg bs client_ip t_new")
  have t: "tokens_at_check cfg bs client_ip t_new now = refilled cfg b now" by (simp add: tokens_at_check_def lb)
  have bs1: "bs1 = (case bs client_ip of None \<Rightarrow> bs(client_ip \<mapsto> (real_of_int (rate_limit_requests cfg), t_new)) | Some b \<Rightarrow> bs)"
    and b: "b = (case bs client_ip of None \<Rightarrow> (real_of_int (rate_limit_requests cfg), t_new) | Some b \<Rightarrow> b)"
    using lb by (auto simp: lookup_bucket_def Let_def split: option.splits)
  have other: "\<forall>c. c \<noteq> client_ip \<longrightarrow> bs' c = bs c"
    using assms by (auto simp: check_rate_limit_def lb bs1 Let_def split: if_splits option.splits)
  have allowed: "res = Inr (True, 0) \<longrightarrow> bs' client_ip = Some (tokens_at_check cfg bs client_ip t_new now - 1, now)"
    using assms by (auto simp: check_rate_limit_def lb t Let_def split: if_splits)
  have denied: "res \<noteq> Inr (True, 0) \<longrightarrow> bs' client_ip = Some b"
    using assms by (auto simp: check_rate_limit_def lb bs1 b Let_def split: if_splits option.splits)
  have first: "res = Inr (True, 0) \<and> bs' client_ip = Some (real_of_int (rate_limit_requests cfg) - 1, now)"
    if h: "bs client_ip = None" "t_new \<le> now" "0 < rate_limit_requests cfg" "0 < rate_limit_window_seconds cfg"
  proof -
    have bb: "b = (real_of_int (rate_limit_requests cfg), t_new)" using b h(1) by simp
    have "0 \<le> (now - t_new) * refill_rate cfg" using h by (simp add: refill_rate_def)
    then have r: "refilled cfg b now = real_of_int (rate_limit_requests cfg)" by (simp add: refilled_def bb)
    have "1 \<le> real_of_int (rate_limit_requests cfg)" using h(3) by simp
    then show ?thesis using assms by (auto simp: check_rate_limit_def lb r Let_def)
  qed
  show ?thesis using other allowed denied first b by blast
qed

text \<open>The first check of a client under \<open>slow_settings\<close>.\<close>

theorem check_updates_bucket_when_allowed_witness:
  "rate_limit_window_seconds slow_settings \<noteq> 0
   \<and> check_rate_limit slow_settings Map.empty ''c'' 0 0 = (Inr (True, 0), [''c'' \<mapsto> (0, 0)])
   \<and> Map.empty ''c'' = (None :: bucket option) \<and> (0::real) \<le> 0 \<and> 0 < rate_limit_requests slow_settings
   \<and> 0 < rate_limit_window_seconds slow_settings
   \<and> [''c'' \<mapsto> (0::real, 0::real)] ''c'' = Some (real_of_int (rate_limit_requests slow_settings) - 1, 0)
   \<and> [''c'' \<mapsto> (0::real, 0::real)] ''d'' = Map.empty ''d''"
proof -
  have h1: "rate_limit_window_seconds slow_settings \<noteq> 0" by (simp add: rl_eval)
  have h2: "check_rate_limit slow_settings Map.empty ''c'' 0 0 = (Inr (True, 0), [''c'' \<mapsto> (0, 0)])"
    by (simp add: rl_eval)
  have h3: "0 < rate_limit_requests slow_settings \<and> 0 < rate_limit_window_seconds slow_settings" by (simp add: rl_eval)
  show ?thesis using h1 h2 h3 check_updates_bucket_when_allowed[OF h1 h2] by simp
qed

section \<open>Properties of callback delivery\<close>

lemma attempt_error_fails: "(attempt_error cfg r = None) = (\<not> fails r)"
  by (cases r) auto

lemma attempt_error_shape:
  "attempt_error cfg r = Some e \<Longrightarrow> e = error_label cfg r @ take 100 (captured_text r)"
  by (cases r) (auto split: if_splits)

lemma failing_log_step:
  "a < r \<Longrightarrow> concat (map (\<lambda>i. if Suc i < r then [Post i, Sleep (b ^ i)] else [Post i]) [a..<r])
     = (if Suc a < r then [Post a, Sleep (b ^ a)] else [Post a])
       @ concat (map (\<lambda>i. if Suc i < r then [Post i, Sleep (b ^ i)] else [Post i]) [Suc a..<r])"
  by (simp add: upt_conv_Cons)

lemma deliver_loop_all_fail:
  assumes "\<forall>i. attempt \<le> i \<and> i < nat (max_callback_retries cfg) \<longrightarrow> fails (send i)"
    and "attempt < nat (max_callback_retries cfg)"
  shows "deliver_loop cfg send attempt err tr =
           (Inr (False, Some (''Failed after '' @ str_int (max_callback_retries cfg)
                   @ '' attempts. Last error: ''
                   @ the (attempt_error cfg (send (nat (max_callback_retries cfg) - 1))))),
            tr @ concat (map (\<lambda>i. if Suc i < nat (max_callback_retries cfg)
                                   then [Post i, Sleep (retry_backoff_base cfg ^ i)] else [Post i])
                             [attempt..<nat (max_callback_retries cfg)]))"
  using assms
proof (induction "nat (max_callback_retries cfg) - attempt" arbitrary: attempt err tr)
  case 0
  then show ?case by simp
next
  case (Suc n)
  let ?R = "max_callback_retries cfg"
  have lt: "int attempt < ?R" using Suc.prems(2) by linarith
  have "fails (send attempt)" using Suc.prems by simp
  then obtain e where e: "attempt_error cfg (send attempt) = Some e"
    using attempt_error_fails[of cfg "send attempt"] by (cases "attempt_error cfg (send attempt)") auto
  show ?case
  proof (cases "int attempt < ?R - 1")
    case True
    then have s: "Suc attempt < nat ?R" by linarith
    have n: "n = nat ?R - Suc attempt" using Suc.hyps(2) by simp
    have all: "\<forall>i. Suc attempt \<le> i \<and> i < nat ?R \<longrightarrow> fails (send i)" using Suc.prems(1) by simp
    have "deliver_loop cfg send attempt err tr =
            deliver_loop cfg send (Suc attempt) (Some e) (tr @ [Post attempt, Sleep (retry_backoff_base cfg ^ attempt)])"
      using lt True e by (subst deliver_loop.simps) simp
    also note Suc.hyps(1)[OF n all s]
    finally show ?thesis
      using s Suc.prems(2) by (simp add: failing_log_step[of attempt])
  next
    case False
    then have last: "Suc attempt = nat ?R" using lt by linarith
    then have a: "attempt = nat ?R - 1" by simp
    have "deliver_loop cfg send attempt err tr = deliver_loop cfg send (Suc attempt) (Some e) (tr @ [Post attempt])"
      using lt False e by (subst deliver_loop.simps) simp
    also have "\<dots> = (Inr (False, Some (''Failed after '' @ str_int ?R @ '' attempts. Last error: '' @ e)),
                      tr @ [Post attempt])"
      using last by (subst deliver_loop.simps) simp
    finally have res: "deliver_loop cfg send attempt err tr =
        (Inr (False, Some (''Failed after '' @ str_int ?R @ '' attempts. Last error: '' @ e)),
         tr @ [Post attempt])" .
    have ea: "the (attempt_error cfg (send (nat ?R - 1))) = e" using e a by simp
    have lg: "concat (map (\<lambda>i. if Suc i < nat ?R then [Post i, Sleep (retry_backoff_base cfg ^ i)] else [Post i])
                 [attempt..<nat ?R]) = [Post attempt]"
      using last by (simp add: last[symmetric])
    show ?thesis unfolding res ea lg by simp
  qed
qed

lemma deliver_callback_all_fail:
  assumes "1 \<le> max_callback_retries cfg"
    and "\<forall>i < nat (max_callback_retries cfg). fails (post url payload i)"
  shows "deliver_callback cfg post url payload =
           (Inr (False, Some (''Failed after '' @ str_int (max_callback_retries cfg)
                   @ '' attempts. Last error: ''
                   @ the (attempt_error cfg (post url payload (nat (max_callback_retries cfg) - 1))))),
            failing_log cfg (nat (max_callback_retries cfg)))"
proof -
  have "0 < nat (max_callback_retries cfg)" using assms(1) by simp
  then show ?thesis
    unfolding deliver_callback_def failing_log_def
    using deliver_loop_all_fail[of 0 cfg "post url payload" None "[]"] assms(2) by simp
qed

lemma posts_append: "posts (xs @ ys) = posts xs @ posts ys"
  by (induction xs rule: posts.induct) auto

lemma sleeps_append: "sleeps (xs @ ys) = sleeps xs @ sleeps ys"
  by (induction xs rule: sleeps.induct) auto

lemma posts_failing_log: "posts (failing_log cfg r) = [0..<r]"
proof -
  have "posts (concat (map (\<lambda>i. if Suc i < r then [Post i, Sleep (b ^ i)] else [Post i]) [0..<k])) = [0..<k]" for k b
    by (induction k) (auto simp: posts_append)
  then show ?thesis by (simp add: failing_log_def)
qed

lemma sleeps_failing_log:
  "sleeps (failing_log cfg r) = map (\<lambda>i. retry_backoff_base cfg ^ i) [0..<r - 1]"
proof -
  have "sleeps (concat (map (\<lambda>i. if Suc i < r then [Post i, Sleep (b ^ i)] else [Post i]) [0..<k]))
          = map (\<lambda>i. b ^ i) [0..<min k (r - 1)]" for k b
  proof (induction k)
    case 0 show ?case by simp
  next
    case (Suc k)
    show ?case
    proof (cases "Suc k < r")
      case True
      then have "min (Suc k) (r - 1) = Suc k" "min k (r - 1) = k" by auto
      then show ?thesis using Suc True by (simp add: sleeps_append)
    next
      case False
      then have "min (Suc k) (r - 1) = r - 1" "min k (r - 1) = r - 1" by auto
      then show ?thesis using Suc False by (simp add: sleeps_append)
    qed
  qed
  from this[of "retry_backoff_base cfg" r] show ?thesis by (simp add: failing_log_def)
qed

text \<open>
  Claim C3. When the retry budget \<open>R = max_callback_retries\<close> is at least 1 and the
  target fails on each of the \<open>R\<close> attempts (a status of 400 or more, a timeout, a
  request error or any other exception), \<^verbatim>\<open>deliver_callback\<close> makes the attempts
  \<open>0, \<dots>, R - 1\<close> and no more, sleeps \<open>backoff_base ^ i\<close> seconds after attempt \<open>i\<close>
  for \<open>i = 0, \<dots>, R - 2\<close>, ends with the last attempt (no sleep follows it), and
  returns \<^verbatim>\<open>False\<close> with a message that carries the error of the last attempt, whose
  captured text is cut to 100 characters.
\<close>

theorem deliver_callback_exhausts_retries:
  assumes "1 \<le> max_callback_retries cfg"
    and "\<forall>i < nat (max_callback_retries cfg). fails (post url payload i)"
  shows "fst (deliver_callback cfg post url payload) =
           Inr (False, Some (''Failed after '' @ str_int (max_callback_retries cfg)
                   @ '' attempts. Last error: ''
                   @ error_label cfg (post url payload (nat (max_callback_retries cfg) - 1))
                   @ take 100 (captured_text (post url payload (nat (max_callback_retries cfg) - 1)))))
       \<and> posts (snd (deliver_callback cfg post url payload)) = [0..<nat (max_callback_retries cfg)]
       \<and> int (length (posts (snd (deliver_callback cfg post url payload)))) = max_callback_retries cfg
       \<and> sleeps (snd (deliver_callback cfg post url payload))
            = map (\<lambda>i. retry_backoff_base cfg ^ i) [0..<nat (max_callback_retries cfg) - 1]
       \<and> snd (deliver_callback cfg post url payload) = failing_log cfg (nat (max_callback_retries cfg))
       \<and> last (snd (deliver_callback cfg post url payload)) = Post (nat (max_callback_retries cfg) - 1)
       \<and> length (take 100 (captured_text (post url payload (nat (max_callback_retries cfg) - 1)))) \<le> 100"
proof -
  let ?R = "nat (max_callback_retries cfg)"
  let ?last = "post url payload (?R - 1)"
  have "?R - 1 < ?R" using assms(1) by simp
  then have "fails ?last" using assms(2) by blast
  then obtain e where e: "attempt_error cfg ?last = Some e"
    using attempt_error_fails[of cfg ?last] by (cases "attempt_error cfg ?last") auto
  have shape: "the (attempt_error cfg ?last) = error_label cfg ?last @ take 100 (captured_text ?last)"
    using attempt_error_shape[OF e] e by simp
  have lastev: "last (failing_log cfg ?R) = Post (?R - 1)"
  proof -
    have "[0..<?R] = [0..<?R - 1] @ [?R - 1]" using assms(1)
      by (metis \<open>?R - 1 < ?R\<close> Suc_diff_1 less_nat_zero_code not_gr_zero upt_Suc_append zero_le zero_less_diff)
    then show ?thesis by (simp add: failing_log_def)
  qed
  show ?thesis
    using deliver_callback_all_fail[of cfg post url payload] assms shape lastev
    by (simp add: posts_failing_log sleeps_failing_log)
qed

text \<open>Three attempts against a target that always answers 500, with base 2.\<close>

theorem deliver_callback_exhausts_retries_witness:
  "1 \<le> max_callback_retries default_settings
   \<and> fails (always_500 ''http://cb'' example_callback 0)
   \<and> fails (always_500 ''http://cb'' example_callback 1)
   \<and> fails (always_500 ''http://cb'' example_callback 2)
   \<and> fst (deliver_callback default_settings always_500 ''http://cb'' example_callback)
       = Inr (False, Some ''Failed after 3 attempts. Last error: HTTP 500: boom'')
   \<and> posts (snd (deliver_callback default_settings always_500 ''http://cb'' example_callback)) = [0, 1, 2]
   \<and> sleeps (snd (deliver_callback default_settings always_500 ''http://cb'' example_callback)) = [1, 2]"
proof -
  have h1: "1 \<le> max_callback_retries default_settings" by (simp add: default_settings_def)
  have h2: "\<forall>i < nat (max_callback_retries default_settings). fails (always_500 ''http://cb'' example_callback i)"
    by (simp add: always_500_def)
  have r: "nat (max_callback_retries default_settings) = 3" "retry_backoff_base default_settings = 2"
    "max_callback_retries default_settings = 3"
    by (simp_all add: default_settings_def)
  have s3: "str_int 3 = ''3''" and s500: "str_int 500 = ''500''"
    by (simp_all add: str_int_def str_nat.simps digit_char_def)
  have u: "[0..<3] = [0, 1, 2]" "[0..<2] = [0, 1]" by (simp_all add: upt_rec)
  show ?thesis
    using h1 h2 deliver_callback_exhausts_retries[of default_settings always_500 "''http://cb''" example_callback]
    by (simp add: r s3 s500 u always_500_def posts_failing_log sleeps_failing_log)
qed

section \<open>Properties of the job queue\<close>

text \<open>
  Claim C4. On a queue that holds as many jobs as its positive capacity, \<^verbatim>\<open>enqueue\<close>
  returns \<^verbatim>\<open>False\<close> and leaves the queue manager as it was: the same jobs in the same
  order and the same counters. So with capacity 2, three enqueues on a new queue manager
  return \<^verbatim>\<open>True\<close>, \<^verbatim>\<open>True\<close>, \<^verbatim>\<open>False\<close>, the queue holds the first two jobs, and the
  metrics show a current size of 2 and 2 enqueued.
\<close>

theorem enqueue_at_capacity_rejects:
  "(0 < max_queue_size cfg \<and> get_size q = max_queue_size cfg \<longrightarrow> enqueue cfg j q = (False, q))
   \<and> (max_queue_size cfg = 2 \<longrightarrow>
        fst (enqueue cfg j1 new_queue_manager) = True
        \<and> fst (enqueue cfg j2 (snd (enqueue cfg j1 new_queue_manager))) = True
        \<and> fst (enqueue cfg j3 (snd (enqueue cfg j2 (snd (enqueue cfg j1 new_queue_manager))))) = False
        \<and> queue (snd (enqueue cfg j3 (snd (enqueue cfg j2 (snd (enqueue cfg j1 new_queue_manager))))))
            = [j1, j2]
        \<and> current_size (get_metrics cfg
             (snd (enqueue cfg j3 (snd (enqueue cfg j2 (snd (enqueue cfg j1 new_queue_manager))))))) = 2
        \<and> m_total_enqueued (get_metrics cfg
             (snd (enqueue cfg j3 (snd (enqueue cfg j2 (snd (enqueue cfg j1 new_queue_manager))))))) = 2)"
proof -
  have a: "enqueue cfg j q = (False, q)" if "0 < max_queue_size cfg" "get_size q = max_queue_size cfg"
    using that by (simp add: enqueue_def full_def get_size_def)
  have e1: "enqueue cfg j1 new_queue_manager
              = (True, \<lparr> queue = [j1], total_enqueued = 1, total_processed = 0 \<rparr>)"
    if "max_queue_size cfg = 2"
    using that by (simp add: enqueue_def full_def new_queue_manager_def)
  have e2: "enqueue cfg j2 \<lparr> queue = [j1], total_enqueued = 1, total_processed = 0 \<rparr>
              = (True, \<lparr> queue = [j1, j2], total_enqueued = 2, total_processed = 0 \<rparr>)"
    if "max_queue_size cfg = 2"
    using that by (simp add: enqueue_def full_def)
  have e3: "enqueue cfg j3 \<lparr> queue = [j1, j2], total_enqueued = 2, total_processed = 0 \<rparr>
              = (False, \<lparr> queue = [j1, j2], total_enqueued = 2, total_processed = 0 \<rparr>)"
    if "max_queue_size cfg = 2"
    using that by (simp add: enqueue_def full_def)
  show ?thesis
    using a by (simp add: e1 e2 e3 get_metrics_def get_size_def)
qed

text \<open>A queue of capacity 2 that holds two jobs.\<close>

theorem enqueue_at_capacity_rejects_witness:
  "0 < max_queue_size (default_settings \<lparr> max_queue_size := 2 \<rparr>)
   \<and> get_size \<lparr> queue = [example_job, example_job], total_enqueued = 2, total_processed = 0 \<rparr>
       = max_queue_size (default_settings \<lparr> max_queue_size := 2 \<rparr>)
   \<and> enqueue (default_settings \<lparr> max_queue_size := 2 \<rparr>) example_job
        \<lparr> queue = [example_job, example_job], total_enqueued = 2, total_processed = 0 \<rparr>
       = (False, \<lparr> queue = [example_job, example_job], total_enqueued = 2, total_processed = 0 \<rparr>)
   \<and> max_queue_size (default_settings \<lparr> max_queue_size := 2 \<rparr>) = 2
   \<and> m_total_enqueued (get_metrics (default_settings \<lparr> max_queue_size := 2 \<rparr>)
        (snd (enqueue (default_settings \<lparr> max_queue_size := 2 \<rparr>) example_job
          (snd (enqueue (default_settings \<lparr> max_queue_size := 2 \<rparr>) example_job
            (snd (enqueue (default_settings \<lparr> max_queue_size := 2 \<rparr>) example_job new_queue_manager))))))) = 2"
proof -
  have h: "0 < max_queue_size (default_settings \<lparr> max_queue_size := 2 \<rparr>)"
    "get_size \<lparr> queue = [example_job, example_job], total_enqueued = 2, total_processed = 0 \<rparr>
       = max_queue_size (default_settings \<lparr> max_queue_size := 2 \<rparr>)"
    "max_queue_size (default_settings \<lparr> max_queue_size := 2 \<rparr>) = 2"
    by (simp_all add: get_size_def)
  show ?thesis
    using h enqueue_at_capacity_rejects[of "default_settings \<lparr> max_queue_size := 2 \<rparr>"
        "\<lparr> queue = [example_job, example_job], total_enqueued = 2, total_processed = 0 \<rparr>"
        example_job example_job example_job example_job]
    by simp
qed

section \<open>Properties of the synchronous endpoint\<close>

text \<open>
  Claim C5. A synchronous submission that arrives while the permits in use number the
  ceiling \<open>max_sync_concurrency\<close> gets the 503 exception at once and changes nothing: no
  record is created (the store is as before), the Work Engine is not called (the call
  log is as before) and no permit is taken.
\<close>

theorem sync_rejected_at_capacity:
  assumes "held_permits cfg s = max_sync_concurrency cfg"
  shows "sync_endpoint cfg env request_id payload client_ip s
           = (Inl (HTTPException 503 (Some ''Server is at maximum capacity. Please try again later.'')), s)
       \<and> db (snd (sync_endpoint cfg env request_id payload client_ip s)) = db s
       \<and> work_log (snd (sync_endpoint cfg env request_id payload client_ip s)) = work_log s"
  using assms by (simp add: sync_endpoint_def at_capacity_def held_permits_def)

text \<open>A ceiling of 1 with the one permit taken by a request in progress.\<close>

theorem sync_rejected_at_capacity_witness:
  "held_permits (default_settings \<lparr> max_sync_concurrency := 1 \<rparr>)
       (acquire (initial_state (default_settings \<lparr> max_sync_concurrency := 1 \<rparr>)))
     = max_sync_concurrency (default_settings \<lparr> max_sync_concurrency := 1 \<rparr>)
   \<and> fst (sync_endpoint (default_settings \<lparr> max_sync_concurrency := 1 \<rparr>) example_sync_env ''r2''
            example_payload ''10.0.0.1''
            (acquire (initial_state (default_settings \<lparr> max_sync_concurrency := 1 \<rparr>))))
       = Inl (HTTPException 503 (Some ''Server is at maximum capacity. Please try again later.''))
   \<and> db (snd (sync_endpoint (default_settings \<lparr> max_sync_concurrency := 1 \<rparr>) example_sync_env ''r2''
            example_payload ''10.0.0.1''
            (acquire (initial_state (default_settings \<lparr> max_sync_concurrency := 1 \<rparr>))))) ''r2'' = None"
proof -
  have h: "held_permits (default_settings \<lparr> max_sync_concurrency := 1 \<rparr>)
       (acquire (initial_state (default_settings \<lparr> max_sync_concurrency := 1 \<rparr>)))
     = max_sync_concurrency (default_settings \<lparr> max_sync_concurrency := 1 \<rparr>)"
    by (simp add: held_permits_def acquire_def initial_state_def)
  show ?thesis
    using h sync_rejected_at_capacity[OF h, of example_sync_env "''r2''" example_payload "''10.0.0.1''"]
    by (simp add: acquire_def initial_state_def)
qed



section \<open>Properties of the store and the handlers\<close>

lemma update_request_status_at:
  "update_request_status conn rid st a b rid' =
     (if rid' = rid
      then map_option (\<lambda>r. r \<lparr> rr_status := st,
              rr_started_at := (case a of None \<Rightarrow> rr_started_at r | Some t \<Rightarrow> Some t),
              rr_completed_at := (case b of None \<Rightarrow> rr_completed_at r | Some t \<Rightarrow> Some t),
              rr_history := rr_history r @ [st] \<rparr>) (conn rid)
      else conn rid')"
  by (simp add: update_request_status_def split: option.splits)

lemma update_request_result_at:
  "update_request_result conn rid res err rid' =
     (if rid' = rid
      then map_option (\<lambda>r. r \<lparr> rr_result := (case res of None \<Rightarrow> None | Some d \<Rightarrow> if d = [] then None else Some d),
              rr_last_error := err \<rparr>) (conn rid)
      else conn rid')"
  by (simp add: update_request_result_def split: option.splits)

lemma increment_callback_attempts_at:
  "increment_callback_attempts conn rid err rid' =
     (if rid' = rid
      then map_option (\<lambda>r. r \<lparr> rr_attempts := rr_attempts r + 1, rr_last_error := err \<rparr>) (conn rid)
      else conn rid')"
  by (simp add: increment_callback_attempts_def split: option.splits)

lemmas store_at = update_request_status_at update_request_result_at increment_callback_attempts_at

lemma snd_on_timeout:
  "snd (on_timeout cfg env j conn) =
     update_request_status
       (update_request_result conn (job_request_id j) None (Some (timeout_message cfg)))
       (job_request_id j) Failed None (Some (we_time env 105))"
  by (simp add: on_timeout_def Let_def split: sum.splits)

lemma snd_on_exception:
  "snd (on_exception cfg env j e conn) =
     update_request_status
       (update_request_result conn (job_request_id j) None (Some (error_message e)))
       (job_request_id j) Failed None (Some (we_time env 129))"
  by (simp add: on_exception_def Let_def split: sum.splits)

lemma db_process_job:
  "db (snd (process_job cfg env j s)) =
     (let conn1 = update_request_status (db s) (job_request_id j) Processing (Some (we_time env 43)) None
      in case we_work env of
           WorkOk result \<Rightarrow>
             (case on_success cfg env j result conn1 of
                (Some e, conn2) \<Rightarrow> snd (on_exception cfg env j (we_str env e) conn2)
              | (None, conn2) \<Rightarrow> conn2)
         | WorkTimeout \<Rightarrow> snd (on_timeout cfg env j conn1)
         | WorkError e \<Rightarrow> snd (on_exception cfg env j e conn1))"
  by (simp add: process_job_def Let_def split_def split: work_outcome.splits option.splits prod.splits)

text \<open>The two messages part at their sixteenth character.\<close>

lemma timeout_message_distinct: "timeout_message cfg \<noteq> error_message e"
  by (simp add: timeout_message_def error_message_def)


section \<open>What a worker pass does to the store\<close>

text \<open>With a retry budget of at least 1 the delivery returns; it never raises.\<close>

lemma deliver_loop_returns:
  "error \<noteq> None \<or> int attempt < max_callback_retries cfg \<Longrightarrow>
     \<exists>ok msg. fst (deliver_loop cfg send attempt error tr) = Inr (ok, msg)"
proof (induction cfg send attempt error tr rule: deliver_loop.induct)
  case (1 cfg send attempt error tr)
  show ?case
  proof (cases "int attempt < max_callback_retries cfg")
    case True
    show ?thesis
    proof (cases "attempt_error cfg (send attempt)")
      case None
      then show ?thesis using True by (subst deliver_loop.simps) auto
    next
      case (Some e)
      show ?thesis
      proof (cases "int attempt < max_callback_retries cfg - 1")
        case t: True
        have "\<exists>ok msg. fst (deliver_loop cfg send (Suc attempt) (Some e)
                 (tr @ [Post attempt, Sleep (retry_backoff_base cfg ^ attempt)])) = Inr (ok, msg)"
          using "1.IH"(1)[OF True Some t] by simp
        then show ?thesis using True Some t by (subst deliver_loop.simps) simp
      next
        case f: False
        have "\<exists>ok msg. fst (deliver_loop cfg send (Suc attempt) (Some e) (tr @ [Post attempt])) = Inr (ok, msg)"
          using "1.IH"(2)[OF True Some f] by simp
        then show ?thesis using True Some f by (subst deliver_loop.simps) simp
      qed
    qed
  next
    case False
    then obtain e where "error = Some e" using "1.prems" by auto
    then show ?thesis using False by (subst deliver_loop.simps) auto
  qed
qed

lemma deliver_callback_returns:
  "1 \<le> max_callback_retries cfg \<Longrightarrow>
     \<exists>ok msg. fst (deliver_callback cfg post url p) = Inr (ok, msg)"
  unfolding deliver_callback_def by (rule deliver_loop_returns) simp

lemma on_success_frame:
  "rid' \<noteq> job_request_id j \<Longrightarrow> snd (on_success cfg env j result conn) rid' = conn rid'"
  by (simp add: on_success_def get_request_def Let_def store_at split: option.splits sum.splits prod.splits)

lemma process_job_frame:
  "rid' \<noteq> job_request_id j \<Longrightarrow> db (snd (process_job cfg env j s)) rid' = db s rid'"
proof -
  assume n: "rid' \<noteq> job_request_id j"
  let ?c1 = "update_request_status (db s) (job_request_id j) Processing (Some (we_time env 43)) None"
  have c1: "?c1 rid' = db s rid'" using n by (simp add: store_at)
  show ?thesis
  proof (cases "we_work env")
    case (WorkOk result)
    obtain f c2 where os: "on_success cfg env j result ?c1 = (f, c2)" by (cases "on_success cfg env j result ?c1")
    have c2: "c2 rid' = db s rid'" using on_success_frame[OF n, of cfg env result ?c1] os c1 by simp
    show ?thesis using WorkOk os c2 n
      by (cases f) (simp_all add: db_process_job snd_on_exception store_at)
  next
    case WorkTimeout
    then show ?thesis using n by (simp add: db_process_job snd_on_timeout store_at)
  next
    case (WorkError e)
    then show ?thesis using n by (simp add: db_process_job snd_on_exception store_at)
  qed
qed

lemma qm_process_job: "qm (snd (process_job cfg env j s)) = task_done (qm s)"
  by (simp add: process_job_def Let_def split_def)

lemma process_job_record:
  assumes "1 \<le> max_callback_retries cfg" and "db s (job_request_id j) = Some r"
  shows "\<exists>r'. db (snd (process_job cfg env j s)) (job_request_id j) = Some r'
           \<and> (rr_history r' = rr_history r @ [Processing, Done] \<and> rr_status r' = Done
              \<or> rr_history r' = rr_history r @ [Processing, Failed] \<and> rr_status r' = Failed)"
proof (cases "we_work env")
  case (WorkOk result)
  let ?rid = "job_request_id j"
  let ?c1 = "update_request_status (db s) ?rid Processing (Some (we_time env 43)) None"
  let ?p = "\<lparr> cp_request_id = ?rid, cp_status = Done, cp_result = Some result,
             cp_error = None, cp_execution_time_ms = (we_time env 59 - we_time env 43) * 1000,
             cp_completed_at = we_time env 78 \<rparr>"
  obtain ok msg where d: "fst (deliver_callback cfg (we_post env) (job_callback_url j) ?p) = Inr (ok, msg)"
    using deliver_callback_returns[OF assms(1)] by blast
  have "\<exists>r'. snd (on_success cfg env j result ?c1) ?rid = Some r' \<and> fst (on_success cfg env j result ?c1) = None
           \<and> rr_history r' = rr_history r @ [Processing, Done] \<and> rr_status r' = Done"
    using assms(2) d by (simp add: on_success_def get_request_def Let_def store_at)
  then show ?thesis using WorkOk
    by (auto simp: db_process_job split: prod.splits option.splits)
next
  case WorkTimeout
  then show ?thesis using assms(2) by (simp add: db_process_job snd_on_timeout store_at)
next
  case (WorkError e)
  then show ?thesis using assms(2) by (simp add: db_process_job snd_on_exception store_at)
qed

lemma record_ok_cases:
  "rr_history r = [Pending] \<and> rr_status r = Pending
   \<or> rr_history r = [Pending, Processing, Done] \<and> rr_status r = Done
   \<or> rr_history r = [Pending, Processing, Failed] \<and> rr_status r = Failed
   \<Longrightarrow> record_ok r"
  by (auto simp: record_ok_def lifecycle_def)

subsection \<open>What one handler does to the store and the queue\<close>

lemma sync_endpoint_qm: "qm (snd (sync_endpoint cfg env rid payload ip s)) = qm s"
  by (simp add: sync_endpoint_def sync_body_def acquire_def release_def Let_def split_def
      split: sum.splits work_outcome.splits)

lemma sync_endpoint_frame:
  "rid' \<noteq> rid \<Longrightarrow> db (snd (sync_endpoint cfg env rid payload ip s)) rid' = db s rid'"
  by (simp add: sync_endpoint_def sync_body_def acquire_def release_def create_request_def
      Let_def split_def store_at split: option.splits work_outcome.splits)

lemma sync_endpoint_existing:
  "db s rid = Some r \<Longrightarrow> db (snd (sync_endpoint cfg env rid payload ip s)) = db s"
  by (simp add: sync_endpoint_def sync_body_def acquire_def release_def create_request_def
      Let_def split_def)

lemma sync_endpoint_record:
  assumes "db s rid = None"
  shows "db (snd (sync_endpoint cfg env rid payload ip s)) rid = None
     \<or> (\<exists>r'. db (snd (sync_endpoint cfg env rid payload ip s)) rid = Some r'
           \<and> (rr_history r' = [Pending, Processing, Done] \<and> rr_status r' = Done
              \<or> rr_history r' = [Pending, Processing, Failed] \<and> rr_status r' = Failed))"
  using assms
  by (cases "se_work env")
     (simp_all add: sync_endpoint_def sync_body_def acquire_def release_def create_request_def
        Let_def split_def store_at)

lemma async_endpoint_frame:
  "rid' \<noteq> rid \<Longrightarrow> db (snd (async_endpoint cfg v now rid payload url ip s)) rid' = db s rid'"
  by (simp add: async_endpoint_def create_request_def Let_def split_def split: option.splits)

lemma async_endpoint_existing:
  "db s rid = Some r \<Longrightarrow> snd (async_endpoint cfg v now rid payload url ip s) = s"
  by (simp add: async_endpoint_def create_request_def Let_def split_def)

lemma async_endpoint_record:
  assumes "db s rid = None"
  shows "snd (async_endpoint cfg v now rid payload url ip s) = s
     \<or> (\<exists>r'. db (snd (async_endpoint cfg v now rid payload url ip s)) rid = Some r'
           \<and> rr_history r' = [Pending] \<and> rr_status r' = Pending)"
  using assms by (simp add: async_endpoint_def create_request_def Let_def split_def)

lemma async_endpoint_queue:
  "queue_ids (snd (async_endpoint cfg v now rid payload url ip s)) = queue_ids s
   \<or> db s rid = None \<and> queue_ids (snd (async_endpoint cfg v now rid payload url ip s)) = queue_ids s @ [rid]"
  by (simp add: async_endpoint_def create_request_def enqueue_def queue_ids_def Let_def split_def
      split: option.splits)

lemma worker_pass_empty:
  "queue (qm s) = [] \<Longrightarrow> exec_event cfg s (WorkerPass env) = s"
  by (simp add: worker_iteration_def dequeue_def)

lemma worker_pass_job:
  "queue (qm s) = j # js \<Longrightarrow>
     exec_event cfg s (WorkerPass env) = snd (process_job cfg env j (s \<lparr> qm := qm s \<lparr> queue := js \<rparr> \<rparr>))"
  by (simp add: worker_iteration_def dequeue_def split: prod.splits)

lemma worker_pass_queue:
  "queue_ids (exec_event cfg s (WorkerPass env)) = tl (queue_ids s)"
proof (cases "queue (qm s)")
  case Nil
  then show ?thesis by (simp add: worker_pass_empty queue_ids_def del: exec_event.simps)
next
  case (Cons j js)
  then show ?thesis by (simp add: worker_pass_job queue_ids_def qm_process_job task_done_def del: exec_event.simps)
qed

lemma worker_pass_frame:
  assumes "rid \<notin> set (take 1 (queue_ids s))"
  shows "db (exec_event cfg s (WorkerPass env)) rid = db s rid"
proof (cases "queue (qm s)")
  case Nil
  then show ?thesis by (simp add: worker_pass_empty del: exec_event.simps)
next
  case (Cons j js)
  then have "rid \<noteq> job_request_id j" using assms by (auto simp: queue_ids_def)
  then show ?thesis using Cons by (simp add: worker_pass_job process_job_frame del: exec_event.simps)
qed

subsection \<open>Jobs in the queue have untouched records\<close>

lemma queue_inv_step:
  assumes "queue_inv s"
  shows "queue_inv (exec_event cfg s ev)"
proof (cases ev)
  case (SyncSubmit env rid payload ip)
  let ?s = "snd (sync_endpoint cfg env rid payload ip s)"
  have q: "queue_ids ?s = queue_ids s" by (simp add: queue_ids_def sync_endpoint_qm)
  have "\<exists>r. db ?s x = Some r \<and> rr_history r = [Pending]" if x: "x \<in> set (queue_ids s)" for x
  proof -
    obtain r where r: "db s x = Some r" "rr_history r = [Pending]" using assms x by (auto simp: queue_inv_def)
    show ?thesis
    proof (cases "x = rid")
      case True
      then show ?thesis using r sync_endpoint_existing[of s rid r cfg env payload ip] by simp
    next
      case False
      then show ?thesis using r sync_endpoint_frame[of x rid cfg env payload ip s] by simp
    qed
  qed
  then show ?thesis using assms SyncSubmit q by (simp add: queue_inv_def)
next
  case (AsyncSubmit v now rid payload url ip)
  let ?s = "snd (async_endpoint cfg v now rid payload url ip s)"
  have old: "\<exists>r. db ?s x = Some r \<and> rr_history r = [Pending]" if x: "x \<in> set (queue_ids s)" for x
  proof -
    obtain r where r: "db s x = Some r" "rr_history r = [Pending]" using assms x by (auto simp: queue_inv_def)
    show ?thesis
    proof (cases "x = rid")
      case True
      then show ?thesis using r async_endpoint_existing[of s rid r cfg v now payload url ip] by simp
    next
      case False
      then show ?thesis using r async_endpoint_frame[of x rid cfg v now payload url ip s] by simp
    qed
  qed
  consider (same) "queue_ids ?s = queue_ids s"
    | (more) "db s rid = None" "queue_ids ?s = queue_ids s @ [rid]"
    using async_endpoint_queue[of cfg v now rid payload url ip s] by auto
  then have "queue_inv ?s"
  proof cases
    case same
    then show ?thesis using assms old by (simp add: queue_inv_def)
  next
    case more
    have notin: "rid \<notin> set (queue_ids s)" using assms more(1) by (auto simp: queue_inv_def)
    have "?s \<noteq> s" using more(2) by auto
    then have new: "\<exists>r. db ?s rid = Some r \<and> rr_history r = [Pending]"
      using async_endpoint_record[OF more(1), of cfg v now payload url ip] by auto
    show ?thesis using assms old new notin more(2) by (auto simp: queue_inv_def)
  qed
  then show ?thesis using AsyncSubmit by simp
next
  case (WorkerPass env)
  let ?s = "exec_event cfg s (WorkerPass env)"
  have q: "queue_ids ?s = tl (queue_ids s)" by (rule worker_pass_queue)
  have d: "distinct (queue_ids s)" using assms by (simp add: queue_inv_def)
  have "\<exists>r. db ?s x = Some r \<and> rr_history r = [Pending]" if x: "x \<in> set (tl (queue_ids s))" for x
  proof -
    have xin: "x \<in> set (queue_ids s)" using x by (cases "queue_ids s") auto
    have "x \<notin> set (take 1 (queue_ids s))" using x d by (cases "queue_ids s") auto
    then have "db ?s x = db s x" by (rule worker_pass_frame)
    then show ?thesis using assms xin by (auto simp: queue_inv_def)
  qed
  moreover have "distinct (tl (queue_ids s))" using d by (rule distinct_tl)
  ultimately show ?thesis using WorkerPass q by (simp add: queue_inv_def del: exec_event.simps)
qed

lemma queue_inv_initial: "queue_inv (initial_state cfg)"
  by (simp add: queue_inv_def queue_ids_def initial_state_def new_queue_manager_def)

lemma queue_inv_run: "queue_inv s \<Longrightarrow> queue_inv (run_events cfg s evs)"
  unfolding run_events_def by (induction evs arbitrary: s) (simp_all add: queue_inv_step)

subsection \<open>Every record follows the lifecycle\<close>

lemma store_inv_step:
  assumes "1 \<le> max_callback_retries cfg" and "queue_inv s" and "store_inv s"
  shows "store_inv (exec_event cfg s ev)"
proof (cases ev)
  case (SyncSubmit env rid payload ip)
  let ?s = "snd (sync_endpoint cfg env rid payload ip s)"
  have "record_ok r" if r: "db ?s x = Some r" for x r
  proof (cases "x = rid")
    case False
    then show ?thesis using r assms(3) sync_endpoint_frame[of x rid cfg env payload ip s]
      by (auto simp: store_inv_def)
  next
    case True
    show ?thesis
    proof (cases "db s rid")
      case (Some r0)
      then show ?thesis using r True assms(3) sync_endpoint_existing[of s rid r0 cfg env payload ip]
        by (auto simp: store_inv_def)
    next
      case None
      then show ?thesis using r True sync_endpoint_record[OF None, of cfg env payload ip]
        by (auto intro: record_ok_cases)
    qed
  qed
  then show ?thesis using SyncSubmit by (simp add: store_inv_def)
next
  case (AsyncSubmit v now rid payload url ip)
  let ?s = "snd (async_endpoint cfg v now rid payload url ip s)"
  have "record_ok r" if r: "db ?s x = Some r" for x r
  proof (cases "x = rid")
    case False
    then show ?thesis using r assms(3) async_endpoint_frame[of x rid cfg v now payload url ip s]
      by (auto simp: store_inv_def)
  next
    case True
    show ?thesis
    proof (cases "db s rid")
      case (Some r0)
      then show ?thesis using r True assms(3) async_endpoint_existing[of s rid r0 cfg v now payload url ip]
        by (auto simp: store_inv_def)
    next
      case None
      then show ?thesis using r True async_endpoint_record[OF None, of cfg v now payload url ip]
        by (auto intro: record_ok_cases)
    qed
  qed
  then show ?thesis using AsyncSubmit by (simp add: store_inv_def)
next
  case (WorkerPass env)
  let ?s = "exec_event cfg s (WorkerPass env)"
  show ?thesis
  proof (cases "queue (qm s)")
    case Nil
    then show ?thesis using WorkerPass assms(3) by (simp add: worker_pass_empty del: exec_event.simps)
  next
    case (Cons j js)
    let ?t = "s \<lparr> qm := qm s \<lparr> queue := js \<rparr> \<rparr>"
    have eq: "?s = snd (process_job cfg env j ?t)" using Cons by (rule worker_pass_job)
    have "job_request_id j \<in> set (queue_ids s)" using Cons by (simp add: queue_ids_def)
    then obtain r0 where r0: "db s (job_request_id j) = Some r0" "rr_history r0 = [Pending]"
      using assms(2) by (auto simp: queue_inv_def)
    have "record_ok r" if r: "db ?s x = Some r" for x r
    proof (cases "x = job_request_id j")
      case False
      then have "db ?s x = db s x" using process_job_frame[of x j cfg env ?t] eq by simp
      then show ?thesis using r assms(3) by (auto simp: store_inv_def)
    next
      case True
      have "db ?t (job_request_id j) = Some r0" using r0 by simp
      from process_job_record[OF assms(1) this, of env] r True eq r0(2)
      show ?thesis by (auto intro: record_ok_cases)
    qed
    then show ?thesis using WorkerPass by (simp add: store_inv_def del: exec_event.simps)
  qed
qed

lemma store_inv_run:
  "1 \<le> max_callback_retries cfg \<Longrightarrow> queue_inv s \<Longrightarrow> store_inv s \<Longrightarrow> store_inv (run_events cfg s evs)"
  unfolding run_events_def
  by (induction evs arbitrary: s) (simp_all add: queue_inv_step store_inv_step)


section \<open>The lifecycle of every record\<close>

lemma lifecycle_cases:
  assumes "lifecycle h"
  shows "h = [Pending] \<or> h = [Pending, Processing]
       \<or> h = [Pending, Processing, Done] \<or> h = [Pending, Processing, Failed]"
proof -
  obtain t where h: "h = Pending # t" using assms by (cases h) (auto simp: lifecycle_def)
  have c: "chain (Pending # t)" using assms h by (simp add: lifecycle_def)
  show ?thesis
  proof (cases t)
    case Nil then show ?thesis using h by simp
  next
    case (Cons b u)
    then have b: "b = Processing" and cu: "chain (Processing # u)" using c by (cases b; simp)+
    show ?thesis
    proof (cases u)
      case Nil then show ?thesis using h Cons b by simp
    next
      case u: (Cons d v)
      then have d: "d = Done \<or> d = Failed" and cv: "chain (d # v)" using cu by (cases d; simp)+
      have "v = []" using d cv by (cases v) auto
      then show ?thesis using h Cons b u d by auto
    qed
  qed
qed

lemma store_inv_initial: "store_inv (initial_state cfg)"
  by (simp add: store_inv_def initial_state_def)

text \<open>
  With a retry budget \<open>max_callback_retries\<close> of at least 1: in every state that the
  process reaches from its start by synchronous submissions, asynchronous submissions
  and worker passes, in any order and with any parameters, the values written to the
  status of any record form a lifecycle. The first is \<open>Pending\<close>, each next one follows
  an edge \<open>Pending \<rightarrow> Processing\<close>, \<open>Processing \<rightarrow> Done\<close> or \<open>Processing \<rightarrow> Failed\<close>, and the
  status is the last of them. So no write goes back, none reaches \<open>Done\<close> or \<open>Failed\<close>
  but from \<open>Processing\<close>, and none follows \<open>Done\<close> or \<open>Failed\<close>.
\<close>

lemma status_follows_lifecycle:
  assumes "1 \<le> max_callback_retries cfg"
    and "db (run_events cfg (initial_state cfg) evs) request_id = Some r"
  shows "lifecycle (rr_history r) \<and> rr_status r = last (rr_history r)
       \<and> (rr_history r = [Pending] \<or> rr_history r = [Pending, Processing]
          \<or> rr_history r = [Pending, Processing, Done] \<or> rr_history r = [Pending, Processing, Failed])"
proof -
  have "store_inv (run_events cfg (initial_state cfg) evs)"
    using assms(1) by (intro store_inv_run queue_inv_initial store_inv_initial)
  then have "record_ok r" using assms(2) by (auto simp: store_inv_def)
  then show ?thesis using lifecycle_cases[of "rr_history r"] by (simp add: record_ok_def)
qed

section \<open>Example runs, evaluated\<close>

lemma queued_state_eq:
  "queued_state =
     \<lparr> db = [''r1'' \<mapsto>
              \<lparr> rr_mode = Async, rr_payload = example_payload, rr_status = Pending,
                rr_callback_url = Some ''http://cb'', rr_created_at = 1, rr_client_ip = ''10.0.0.1'',
                rr_started_at = None, rr_completed_at = None, rr_result = None,
                rr_last_error = None, rr_attempts = 0, rr_history = [Pending] \<rparr>],
       qm = \<lparr> queue = [example_job], total_enqueued = 1, total_processed = 0 \<rparr>,
       sem_value = 10, work_log = [] \<rparr>"
  by (simp add: queued_state_def run_events_def example_submit_def async_endpoint_def
      create_request_def enqueue_def full_def initial_state_def new_queue_manager_def
      default_settings_def example_job_def Let_def)

lemma timeout_message_default: "timeout_message default_settings = ''Work execution timeout after 30s''"
  by (simp add: timeout_message_def default_settings_def str_int_def str_nat.simps digit_char_def)

lemma always_500_delivery:
  "fst (deliver_callback default_settings always_500 url p)
     = Inr (False, Some ''Failed after 3 attempts. Last error: HTTP 500: boom'')"
proof -
  have h1: "1 \<le> max_callback_retries default_settings" by (simp add: default_settings_def)
  have h2: "\<forall>i < nat (max_callback_retries default_settings). fails (always_500 url p i)"
    by (simp add: always_500_def)
  have s3: "str_int 3 = ''3''" and s500: "str_int 500 = ''500''"
    by (simp_all add: str_int_def str_nat.simps digit_char_def)
  have r: "max_callback_retries default_settings = 3" by (simp add: default_settings_def)
  show ?thesis
    using deliver_callback_all_fail[of default_settings always_500 url p] h1 h2
    by (simp add: r s3 s500 always_500_def)
qed

lemma timeout_pass:
  "db (exec_event default_settings queued_state (WorkerPass example_worker_env)) ''r1'' =
     Some \<lparr> rr_mode = Async, rr_payload = example_payload, rr_status = Failed,
            rr_callback_url = Some ''http://cb'', rr_created_at = 1, rr_client_ip = ''10.0.0.1'',
            rr_started_at = Some 43, rr_completed_at = Some 105, rr_result = None,
            rr_last_error = Some ''Work execution timeout after 30s'', rr_attempts = 0,
            rr_history = [Pending, Processing, Failed] \<rparr>"
proof -
  have q: "queue (qm queued_state) = [example_job]" by (simp add: queued_state_eq)
  have w: "we_work example_worker_env = WorkTimeout" "we_time example_worker_env = real"
    by (simp_all add: example_worker_env_def)
  have j: "job_request_id example_job = ''r1''" by (simp add: example_job_def)
  show ?thesis
    unfolding worker_pass_job[OF q]
    by (simp add: db_process_job snd_on_timeout store_at w j timeout_message_default queued_state_eq)
qed

text \<open>
  With a budget of 0 (or less) the loop body never runs and the return statement reads
  the unbound local \<^verbatim>\<open>error\<close>.
\<close>

lemma no_budget_raises:
  "max_callback_retries cfg \<le> 0 \<Longrightarrow> deliver_callback cfg post url p = (Inl UnboundLocalError, [])"
  unfolding deliver_callback_def by (subst deliver_loop.simps) simp

text \<open>The submission does not read the retry budget: it leaves the queued state.\<close>

lemma no_retry_queued:
  "run_events no_retry_settings (initial_state no_retry_settings) [example_submit ''r1''] = queued_state"
  unfolding queued_state_eq
  by (simp add: no_retry_settings_def run_events_def example_submit_def async_endpoint_def
      create_request_def enqueue_def full_def initial_state_def new_queue_manager_def
      default_settings_def example_job_def Let_def)

text \<open>
  Claim C7 fails on the code when the retry budget is 0. One asynchronous submission and
  one worker pass whose work succeeds: the worker writes \<open>Processing\<close> and \<open>Done\<close>, the
  delivery raises, the exception leaves the \<^verbatim>\<open>try\<close> body, and the handler of
  \<^verbatim>\<open>Exception\<close> clears the result and writes \<open>Failed\<close>. The record has gone from
  \<open>Done\<close> to \<open>Failed\<close>, which is no edge of the state machine.
\<close>

theorem zero_retry_budget_overwrites_done:
  "fst (deliver_callback no_retry_settings always_500 ''http://cb'' example_callback) = Inl UnboundLocalError
   \<and> map_option (\<lambda>r. (rr_history r, rr_status r, rr_result r))
        (db (run_events no_retry_settings (initial_state no_retry_settings)
               [example_submit ''r1'', WorkerPass example_ok_env]) ''r1'')
       = Some ([Pending, Processing, Done, Failed], Failed, None)
   \<and> \<not> forward Done Failed
   \<and> \<not> lifecycle [Pending, Processing, Done, Failed]"
proof -
  have z: "max_callback_retries no_retry_settings \<le> 0" by (simp add: no_retry_settings_def)
  have a: "fst (deliver_callback no_retry_settings always_500 ''http://cb'' example_callback) = Inl UnboundLocalError"
    by (simp add: no_budget_raises[OF z])
  have e: "run_events no_retry_settings (initial_state no_retry_settings)
               [example_submit ''r1'', WorkerPass example_ok_env]
           = exec_event no_retry_settings queued_state (WorkerPass example_ok_env)"
    using no_retry_queued by (simp add: run_events_def del: exec_event.simps)
  have q: "queue (qm queued_state) = [example_job]" by (simp add: queued_state_eq)
  have j: "job_request_id example_job = ''r1''" by (simp add: example_job_def)
  have b: "map_option (\<lambda>r. (rr_history r, rr_status r, rr_result r))
        (db (exec_event no_retry_settings queued_state (WorkerPass example_ok_env)) ''r1'')
       = Some ([Pending, Processing, Done, Failed], Failed, None)"
    unfolding worker_pass_job[OF q]
    by (simp add: db_process_job on_success_def snd_on_exception get_request_def store_at j
        queued_state_eq example_ok_env_def example_worker_env_def no_budget_raises[OF z] Let_def)
  have c: "\<not> forward Done Failed" "\<not> lifecycle [Pending, Processing, Done, Failed]"
    by (simp_all add: lifecycle_def)
  show ?thesis using a b c unfolding e by simp
qed

text \<open>One asynchronous submission and one worker pass whose work times out.\<close>

lemma status_follows_lifecycle_example:
  "1 \<le> max_callback_retries default_settings
   \<and> db (run_events default_settings (initial_state default_settings)
           [example_submit ''r1'', WorkerPass example_worker_env]) ''r1''
       = Some \<lparr> rr_mode = Async, rr_payload = example_payload, rr_status = Failed,
            rr_callback_url = Some ''http://cb'', rr_created_at = 1, rr_client_ip = ''10.0.0.1'',
            rr_started_at = Some 43, rr_completed_at = Some 105, rr_result = None,
            rr_last_error = Some ''Work execution timeout after 30s'', rr_attempts = 0,
            rr_history = [Pending, Processing, Failed] \<rparr>
   \<and> lifecycle [Pending, Processing, Failed]
   \<and> Failed = last [Pending, Processing, Failed]"
proof -
  have h1: "1 \<le> max_callback_retries default_settings" by (simp add: default_settings_def)
  have e: "run_events default_settings (initial_state default_settings)
             [example_submit ''r1'', WorkerPass example_worker_env]
           = exec_event default_settings queued_state (WorkerPass example_worker_env)"
    by (simp add: run_events_def queued_state_def del: exec_event.simps)
  have h2: "db (run_events default_settings (initial_state default_settings)
           [example_submit ''r1'', WorkerPass example_worker_env]) ''r1''
       = Some \<lparr> rr_mode = Async, rr_payload = example_payload, rr_status = Failed,
            rr_callback_url = Some ''http://cb'', rr_created_at = 1, rr_client_ip = ''10.0.0.1'',
            rr_started_at = Some 43, rr_completed_at = Some 105, rr_result = None,
            rr_last_error = Some ''Work execution timeout after 30s'', rr_attempts = 0,
            rr_history = [Pending, Processing, Failed] \<rparr>"
    unfolding e by (rule timeout_pass)
  show ?thesis using h1 h2 status_follows_lifecycle[OF h1 h2] by simp
qed

text \<open>
  Claim C1 fails on the code. A queued job under the default settings, a callback target
  that answers 500 three times: the delivery returns failure. When the work has timed
  out or raised, the record keeps 0 attempts and its \<^verbatim>\<open>last_error\<close> is the execution
  error, since the two failure handlers drop what \<^verbatim>\<open>deliver_callback\<close> returns. When
  the work has succeeded, the same delivery failure is counted: 1 attempt, the delivery
  error in \<^verbatim>\<open>last_error\<close>, status \<open>Done\<close>.
\<close>

theorem failed_path_drops_delivery_failure:
  "map_option (\<lambda>r. (rr_status r, rr_attempts r, rr_last_error r)) (db queued_state ''r1'')
     = Some (Pending, 0, None)
   \<and> (\<forall>p. fst (deliver_callback default_settings always_500 ''http://cb'' p)
          = Inr (False, Some ''Failed after 3 attempts. Last error: HTTP 500: boom''))
   \<and> map_option (\<lambda>r. (rr_status r, rr_attempts r, rr_last_error r))
        (db (exec_event default_settings queued_state (WorkerPass example_worker_env)) ''r1'')
     = Some (Failed, 0, Some ''Work execution timeout after 30s'')
   \<and> map_option (\<lambda>r. (rr_status r, rr_attempts r, rr_last_error r))
        (db (exec_event default_settings queued_state
               (WorkerPass (example_worker_env \<lparr> we_work := WorkError ''bad input'' \<rparr>))) ''r1'')
     = Some (Failed, 0, Some ''Work execution error: bad input'')
   \<and> map_option (\<lambda>r. (rr_status r, rr_attempts r, rr_last_error r))
        (db (exec_event default_settings queued_state
               (WorkerPass (example_worker_env \<lparr> we_work := WorkOk [(''operation'', ''hash'')] \<rparr>))) ''r1'')
     = Some (Done, 1, Some ''Failed after 3 attempts. Last error: HTTP 500: boom'')"
proof -
  have q: "queue (qm queued_state) = [example_job]" by (simp add: queued_state_eq)
  have j: "job_request_id example_job = ''r1''" "job_callback_url example_job = ''http://cb''"
    by (simp_all add: example_job_def)
  have a: "map_option (\<lambda>r. (rr_status r, rr_attempts r, rr_last_error r)) (db queued_state ''r1'')
     = Some (Pending, 0, None)"
    by (simp add: queued_state_eq)
  have b: "map_option (\<lambda>r. (rr_status r, rr_attempts r, rr_last_error r))
        (db (exec_event default_settings queued_state (WorkerPass example_worker_env)) ''r1'')
     = Some (Failed, 0, Some ''Work execution timeout after 30s'')"
    by (simp add: timeout_pass del: exec_event.simps)
  have c: "map_option (\<lambda>r. (rr_status r, rr_attempts r, rr_last_error r))
        (db (exec_event default_settings queued_state
               (WorkerPass (example_worker_env \<lparr> we_work := WorkError ''bad input'' \<rparr>))) ''r1'')
     = Some (Failed, 0, Some ''Work execution error: bad input'')"
    unfolding worker_pass_job[OF q]
    by (simp add: db_process_job snd_on_exception store_at j error_message_def queued_state_eq
        example_worker_env_def)
  have d: "map_option (\<lambda>r. (rr_status r, rr_attempts r, rr_last_error r))
        (db (exec_event default_settings queued_state
               (WorkerPass (example_worker_env \<lparr> we_work := WorkOk [(''operation'', ''hash'')] \<rparr>))) ''r1'')
     = Some (Done, 1, Some ''Failed after 3 attempts. Last error: HTTP 500: boom'')"
    unfolding worker_pass_job[OF q]
    by (simp add: db_process_job on_success_def get_request_def store_at j queued_state_eq
        example_worker_env_def always_500_delivery Let_def)
  show ?thesis using a b c d always_500_delivery by simp
qed


subsection \<open>A record whose job is not in the queue is never touched\<close>

lemma orphan_step:
  assumes "db s rid = Some r" and "rid \<notin> set (queue_ids s)"
  shows "db (exec_event cfg s ev) rid = Some r \<and> rid \<notin> set (queue_ids (exec_event cfg s ev))"
proof (cases ev)
  case (SyncSubmit env rid' payload ip)
  have q: "queue_ids (snd (sync_endpoint cfg env rid' payload ip s)) = queue_ids s"
    by (simp add: queue_ids_def sync_endpoint_qm)
  have "db (snd (sync_endpoint cfg env rid' payload ip s)) rid = Some r"
  proof (cases "rid = rid'")
    case True
    then show ?thesis using assms(1) sync_endpoint_existing[of s rid r cfg env payload ip] by simp
  next
    case False
    then show ?thesis using assms(1) sync_endpoint_frame[of rid rid' cfg env payload ip s] by simp
  qed
  then show ?thesis using SyncSubmit q assms(2) by simp
next
  case (AsyncSubmit v now rid' payload url ip)
  show ?thesis
  proof (cases "rid = rid'")
    case True
    then show ?thesis
      using AsyncSubmit assms async_endpoint_existing[of s rid r cfg v now payload url ip] by simp
  next
    case False
    then have "db (snd (async_endpoint cfg v now rid' payload url ip s)) rid = Some r"
      using assms(1) async_endpoint_frame[of rid rid' cfg v now payload url ip s] by simp
    moreover have "rid \<notin> set (queue_ids (snd (async_endpoint cfg v now rid' payload url ip s)))"
      using False assms(2) async_endpoint_queue[of cfg v now rid' payload url ip s] by auto
    ultimately show ?thesis using AsyncSubmit by simp
  qed
next
  case (WorkerPass env)
  have "rid \<notin> set (take 1 (queue_ids s))" using assms(2) by (meson in_set_takeD)
  then have "db (exec_event cfg s (WorkerPass env)) rid = db s rid" by (rule worker_pass_frame)
  moreover have "rid \<notin> set (queue_ids (exec_event cfg s (WorkerPass env)))"
    unfolding worker_pass_queue using assms(2) by (cases "queue_ids s") auto
  ultimately show ?thesis using WorkerPass assms(1) by (simp del: exec_event.simps)
qed

lemma orphan_run:
  "db s rid = Some r \<Longrightarrow> rid \<notin> set (queue_ids s) \<Longrightarrow>
     db (run_events cfg s evs) rid = Some r \<and> rid \<notin> set (queue_ids (run_events cfg s evs))"
  unfolding run_events_def
proof (induction evs arbitrary: s)
  case Nil
  then show ?case by simp
next
  case (Cons ev evs)
  from orphan_step[OF Cons.prems, of cfg ev]
  show ?case using Cons.IH[of "exec_event cfg s ev"] by (simp del: exec_event.simps)
qed

text \<open>
  Claim C10. In a state reached by a run of the process whose queue holds as many jobs
  as its positive capacity, an asynchronous submission with a valid callback address and
  a new identifier gets the 429 exception and leaves the queue manager as it was, yet
  its record is in the store. After any further events the record is there unchanged,
  with status \<open>Pending\<close>, a history of one write and no start time, and no queued job
  bears its identifier.
\<close>

theorem rejected_async_record_stays_pending:
  assumes "s = run_events cfg (initial_state cfg) before"
    and "fst validation" and "db s request_id = None"
    and "0 < max_queue_size cfg" and "get_size (qm s) = max_queue_size cfg"
  shows "fst (async_endpoint cfg validation now request_id payload callback_url client_ip s)
           = Inl (HTTPException 429 (Some ''Queue is full. Please try again later.''))
       \<and> qm (snd (async_endpoint cfg validation now request_id payload callback_url client_ip s)) = qm s
       \<and> (\<forall>later. \<exists>r.
             db (run_events cfg
                   (snd (async_endpoint cfg validation now request_id payload callback_url client_ip s))
                   later) request_id = Some r
             \<and> rr_status r = Pending \<and> rr_history r = [Pending] \<and> rr_started_at r = None
             \<and> rr_mode r = Async \<and> rr_payload r = payload
             \<and> request_id \<notin> set (queue_ids (run_events cfg
                   (snd (async_endpoint cfg validation now request_id payload callback_url client_ip s))
                   later)))"
proof -
  let ?s = "snd (async_endpoint cfg validation now request_id payload callback_url client_ip s)"
  let ?r = "\<lparr> rr_mode = Async, rr_payload = payload, rr_status = Pending,
              rr_callback_url = Some callback_url, rr_created_at = now, rr_client_ip = client_ip,
              rr_started_at = None, rr_completed_at = None, rr_result = None,
              rr_last_error = None, rr_attempts = 0, rr_history = [Pending] \<rparr>"
  have full: "full cfg (qm s)" using assms(4,5) by (simp add: full_def get_size_def)
  have res: "fst (async_endpoint cfg validation now request_id payload callback_url client_ip s)
           = Inl (HTTPException 429 (Some ''Queue is full. Please try again later.''))"
    and q: "qm ?s = qm s" and d: "db ?s request_id = Some ?r"
    using assms(2,3) full
    by (simp_all add: async_endpoint_def create_request_def enqueue_def Let_def)
  have "queue_inv s" unfolding assms(1) by (intro queue_inv_run queue_inv_initial)
  then have "request_id \<notin> set (queue_ids s)" using assms(3) by (auto simp: queue_inv_def)
  then have n: "request_id \<notin> set (queue_ids ?s)" using q by (simp add: queue_ids_def)
  have "db (run_events cfg ?s later) request_id = Some ?r
        \<and> request_id \<notin> set (queue_ids (run_events cfg ?s later))" for later
    using orphan_run[OF d n] by blast
  then show ?thesis using res q by simp
qed

text \<open>The process under \<open>tiny_queue\<close> after one submission: the queue is full.\<close>

lemma tiny_full_state:
  "run_events tiny_queue (initial_state tiny_queue) [example_submit ''r1'']
     = \<lparr> db = [''r1'' \<mapsto>
              \<lparr> rr_mode = Async, rr_payload = example_payload, rr_status = Pending,
                rr_callback_url = Some ''http://cb'', rr_created_at = 1, rr_client_ip = ''10.0.0.1'',
                rr_started_at = None, rr_completed_at = None, rr_result = None,
                rr_last_error = None, rr_attempts = 0, rr_history = [Pending] \<rparr>],
       qm = \<lparr> queue = [example_job], total_enqueued = 1, total_processed = 0 \<rparr>,
       sem_value = 10, work_log = [] \<rparr>"
  by (simp add: tiny_queue_def run_events_def example_submit_def async_endpoint_def
      create_request_def enqueue_def full_def initial_state_def new_queue_manager_def
      default_settings_def example_job_def Let_def)

text \<open>A queue of capacity 1 that holds one job; two worker passes follow the rejection.\<close>

theorem rejected_async_record_stays_pending_witness:
  "fst (True, None :: string option)
   \<and> db (run_events tiny_queue (initial_state tiny_queue) [example_submit ''r1'']) ''r2'' = None
   \<and> 0 < max_queue_size tiny_queue
   \<and> get_size (qm (run_events tiny_queue (initial_state tiny_queue) [example_submit ''r1'']))
       = max_queue_size tiny_queue
   \<and> fst (async_endpoint tiny_queue (True, None) 2 ''r2'' example_payload ''http://cb'' ''10.0.0.1''
            (run_events tiny_queue (initial_state tiny_queue) [example_submit ''r1'']))
       = Inl (HTTPException 429 (Some ''Queue is full. Please try again later.''))
   \<and> (\<exists>r. db (run_events tiny_queue
               (snd (async_endpoint tiny_queue (True, None) 2 ''r2'' example_payload ''http://cb''
                      ''10.0.0.1''
                      (run_events tiny_queue (initial_state tiny_queue) [example_submit ''r1''])))
               [WorkerPass example_worker_env, WorkerPass example_worker_env]) ''r2'' = Some r
          \<and> rr_status r = Pending \<and> rr_history r = [Pending])"
proof -
  let ?s = "run_events tiny_queue (initial_state tiny_queue) [example_submit ''r1'']"
  have h1: "?s = run_events tiny_queue (initial_state tiny_queue) [example_submit ''r1'']" by simp
  have h2: "fst (True, None :: string option)" by simp
  have h3: "db ?s ''r2'' = None" by (simp add: tiny_full_state)
  have h4: "0 < max_queue_size tiny_queue" by (simp add: tiny_queue_def)
  have h5: "get_size (qm ?s) = max_queue_size tiny_queue"
    by (simp add: tiny_full_state get_size_def) (simp add: tiny_queue_def)
  from rejected_async_record_stays_pending[OF h1 h2 h3 h4 h5, of 2 example_payload "''http://cb''" "''10.0.0.1''"]
  show ?thesis using h3 h4 h5 by auto
qed


end
